theory Spec2Isabelle
  imports
    Complex_Main
    "HOL-Library.Char_ord"
    "HOL-Library.List_Lexorder"
    "HOL-Library.Product_Lexorder"
begin

section \<open>Tables, configuration and errors\<close>

text \<open>
  The engine of \<^verbatim>\<open>src/core/compute.py\<close> is the single function
  \<^verbatim>\<open>compute_ddct\<close>. It reads one sheet of a workbook into a pandas data frame,
  threads that frame through validation, classification, outlier filtering and the
  \<open>\<Delta>Ct\<close>/\<open>\<Delta>\<Delta>Ct\<close> arithmetic, and writes a result workbook.

  A data frame is a list of rows in index order; a row maps a column name to a cell.
  A cell is a number, a text or empty (pandas' NaN). Quantification values are IEEE
  doubles in the source and exact reals in the pipeline here; overflow and infinities
  are outside this embedding, NaN is \<open>Empty\<close> (for cells) or \<open>None\<close> (for statistics).
  Rounding is modelled where it decides an outcome: the z-score estimator is given a
  second time with every operation rounded to a double.
  Strings are byte strings ordered lexicographically by byte, which is Python's code
  point order on UTF-8 text.
\<close>

datatype cell = Num real | Txt string | Empty

type_synonym row = "string \<Rightarrow> cell"

text \<open>
  A column label is a text or a number: \<^verbatim>\<open>pd.read_excel\<close> keeps a numeric header
  cell as a number. The engine addresses columns by text, so a row is read at texts only.
\<close>

datatype label = Name string | Number real

record table =
  columns :: "label list"
  body :: "row list"

type_synonym workbook = "(string \<times> table) list"

type_synonym store = "string \<Rightarrow> workbook option"

datatype sheet_sel = SheetIndex nat | SheetName string

text \<open>The parameters of \<^verbatim>\<open>compute_ddct\<close>, with the defaults of its signature.\<close>

record config =
  excel_path :: string
  control_group_regex :: string
  ref_gene_regex :: string
  output_path :: "string option"
  control_search_col :: string
  ref_search_col :: string
  sample_name_col :: string
  cq_col :: string
  well_col :: string
  sheet_name :: sheet_sel
  exclude_ref_in_sample_sheet :: bool
  assume_case_insensitive_regex :: bool
  outlier_method :: string
  outlier_threshold :: real
  outlier_min_reps :: int
  record_outliers :: bool
  enable_outlier_filter :: bool

definition default_config :: "string \<Rightarrow> string \<Rightarrow> string \<Rightarrow> config" where
  "default_config path control_regex ref_regex =
     \<lparr> excel_path = path,
       control_group_regex = control_regex,
       ref_gene_regex = ref_regex,
       output_path = None,
       control_search_col = ''Target'',
       ref_search_col = ''Sample'',
       sample_name_col = ''Target'',
       cq_col = ''Cq'',
       well_col = ''Well'',
       sheet_name = SheetIndex 0,
       exclude_ref_in_sample_sheet = False,
       assume_case_insensitive_regex = True,
       outlier_method = ''mad'',
       outlier_threshold = 3.0,
       outlier_min_reps = 3,
       record_outliers = True,
       enable_outlier_filter = True \<rparr>"

text \<open>
  What the engine takes from Python's libraries and this repository does not contain:
  \<^item> \<open>re_compile flags pattern\<close> is \<^verbatim>\<open>re.compile(pattern, flags)\<close> followed by
    \<^verbatim>\<open>bool(compiled.search(x))\<close>; \<open>None\<close> is \<^verbatim>\<open>re.error\<close> on a malformed pattern.
    \<open>flags\<close> is true for \<^verbatim>\<open>re.IGNORECASE\<close>.
  \<^item> \<open>parse_float\<close> is what \<^verbatim>\<open>pd.to_numeric(errors="coerce")\<close> makes of a text cell.
  \<^item> \<open>float_str\<close> is what \<^verbatim>\<open>astype(str)\<close> makes of a number.
  Every theorem below holds for all such libraries.
\<close>

record pylib =
  re_compile :: "bool \<Rightarrow> string \<Rightarrow> (string \<Rightarrow> bool) option"
  parse_float :: "string \<Rightarrow> real option"
  float_str :: "real \<Rightarrow> string"

text \<open>
  The source raises \<^verbatim>\<open>ValueError\<close> five times with five messages; the constructors
  carry what each message lists. \<open>ReadError\<close>, \<open>PatternError\<close> and \<open>KeyError\<close>
  are the exceptions of \<^verbatim>\<open>pd.read_excel\<close>, \<^verbatim>\<open>re.compile\<close> and
  \<^verbatim>\<open>sort_values\<close>, which the engine lets through. \<open>TypeError\<close> is Python's, from
  \<^verbatim>\<open>sorted(df.columns)\<close> on labels of both kinds. \<open>FrameShapeError\<close> is pandas'
  \<^verbatim>\<open>ValueError\<close> from the assignment \<^verbatim>\<open>df["_Outlier"] = ...\<close> of a frame with
  several columns.
\<close>

datatype error =
    ReadError
  | SchemaError "string list" "label list"
  | PatternError
  | NoControlMatchError
  | MissingReferenceError "string list"
  | MissingControlBaselineError "string list"
  | EmptyResultError
  | KeyError string
  | TypeError
  | FrameShapeError

section \<open>Series statistics\<close>

text \<open>
  pandas' \<^verbatim>\<open>mean\<close>, \<^verbatim>\<open>median\<close>, \<^verbatim>\<open>quantile\<close> (linear interpolation) and
  \<^verbatim>\<open>std(ddof=0)\<close> of a series without missing values; the result on an empty series
  is NaN, here \<open>None\<close>.
\<close>

definition mean :: "real list \<Rightarrow> real option" where
  "mean xs = (if xs = [] then None else Some (sum_list xs / real (length xs)))"

definition median :: "real list \<Rightarrow> real option" where
  "median xs =
     (let ys = sort xs; n = length ys in
      if n = 0 then None
      else if odd n then Some (ys ! (n div 2))
      else Some ((ys ! (n div 2 - 1) + ys ! (n div 2)) / 2))"

definition quantile :: "real list \<Rightarrow> real \<Rightarrow> real option" where
  "quantile xs q =
     (let ys = sort xs; n = length ys in
      if n = 0 then None
      else
        let h = real (n - 1) * q; i = nat \<lfloor>h\<rfloor> in
        if i + 1 < n then Some (ys ! i + (h - real i) * (ys ! (i + 1) - ys ! i))
        else Some (ys ! i))"

definition std0 :: "real list \<Rightarrow> real option" where
  "std0 xs =
     (case mean xs of
        None \<Rightarrow> None
      | Some mu \<Rightarrow> map_option sqrt (mean (map (\<lambda>x. (x - mu)\<^sup>2) xs)))"

section \<open>The outlier estimators\<close>

definition no_flags :: "real list \<Rightarrow> bool list" where
  "no_flags s = map (\<lambda>_. False) s"

text \<open>
  \<^verbatim>\<open>_flag_outliers(s, method, thresh)\<close>: one flag per value of the series, in order.
  The \<^verbatim>\<open>pd.isna\<close> half of each zero-spread guard is the \<open>None\<close> branch.
\<close>

definition flag_outliers :: "real list \<Rightarrow> string \<Rightarrow> real \<Rightarrow> bool list" where
  "flag_outliers s method thresh =
     (if method = ''mad'' then
        (case median s of
           None \<Rightarrow> no_flags s
         | Some med \<Rightarrow>
             (case median (map (\<lambda>x. \<bar>x - med\<bar>) s) of
                None \<Rightarrow> no_flags s
              | Some m \<Rightarrow>
                  let mad = 1.4826 * m in
                  if mad = 0 then no_flags s
                  else map (\<lambda>x. \<bar>x - med\<bar> / mad > thresh) s))
      else if method = ''iqr'' then
        (case (quantile s 0.25, quantile s 0.75) of
           (Some q1, Some q3) \<Rightarrow>
             let iqr = q3 - q1 in
             if iqr = 0 then no_flags s
             else
               let lo = q1 - thresh * iqr; hi = q3 + thresh * iqr in
               map (\<lambda>x. x < lo \<or> x > hi) s
         | _ \<Rightarrow> no_flags s)
      else if method = ''zscore'' then
        (case (mean s, std0 s) of
           (Some mu, Some sd) \<Rightarrow>
             if sd = 0 then no_flags s
             else map (\<lambda>x. \<bar>x - mu\<bar> / sd > thresh) s
         | _ \<Rightarrow> no_flags s)
      else no_flags s)"

section \<open>The z-score estimator in double precision\<close>

text \<open>
  The statistics above are over the reals. The machine computes them in IEEE 754
  binary64, and every operation rounds. \<open>fl64\<close> is the rounding of a real to the nearest
  double, ties to the even significand (\<open>rne\<close>), for values in the normal range, where
  quantification values and their spreads lie: 53 significant bits at the exponent of
  the value.

  \<open>mean_f64\<close> is \<^verbatim>\<open>s.mean()\<close>: the sum, accumulated from the left, divided by the count.
  \<open>std0_f64\<close> is \<^verbatim>\<open>s.std(ddof=0)\<close>: the square root of the mean of the squared
  deviations from that mean. \<open>zscore_f64\<close> is the \<^verbatim>\<open>zscore\<close> branch of
  \<^verbatim>\<open>_flag_outliers\<close> computed so: \<^verbatim>\<open>z = (s - mu) / sd\<close>, flagged where
  \<^verbatim>\<open>z.abs() > thresh\<close>, and nothing flagged when \<^verbatim>\<open>sd == 0\<close>.
\<close>

definition rne :: "real \<Rightarrow> int" where
  "rne x =
     (let f = \<lfloor>x\<rfloor>; d = x - of_int f in
      if d < 1 / 2 then f
      else if 1 / 2 < d then f + 1
      else if even f then f else f + 1)"

definition fl64 :: "real \<Rightarrow> real" where
  "fl64 x =
     (if x = 0 then 0
      else let e = \<lfloor>log 2 \<bar>x\<bar>\<rfloor> - 52
           in of_int (rne (x / 2 powr of_int e)) * 2 powr of_int e)"

definition fsum :: "real list \<Rightarrow> real" where
  "fsum xs = foldl (\<lambda>acc v. fl64 (acc + v)) 0 xs"

definition mean_f64 :: "real list \<Rightarrow> real option" where
  "mean_f64 xs = (if xs = [] then None else Some (fl64 (fsum xs / real (length xs))))"

definition std0_f64 :: "real list \<Rightarrow> real option" where
  "std0_f64 xs =
     (case mean_f64 xs of
        None \<Rightarrow> None
      | Some avg \<Rightarrow>
          Some (fl64 (sqrt (fl64 (fsum (map (\<lambda>v. fl64 (fl64 (avg - v) * fl64 (avg - v))) xs)
                                   / real (length xs))))))"

definition zscore_f64 :: "real list \<Rightarrow> real \<Rightarrow> bool list" where
  "zscore_f64 s thresh =
     (case (mean_f64 s, std0_f64 s) of
        (Some mu, Some sd) \<Rightarrow>
          if sd = 0 then no_flags s
          else map (\<lambda>x. \<bar>fl64 (fl64 (x - mu) / sd)\<bar> > thresh) s
      | _ \<Rightarrow> no_flags s)"

text \<open>
  The quantification value 15.02 as a double, and the doubles that the mean and the
  standard deviation of three wells of it pass through: the sum of two, the sum of
  three, the mean, its distance from the value (one unit in the last place) and the
  square of that.
\<close>

definition cq_1502 :: real where
  "cq_1502 = 8455508300388106 / 2 ^ 49"

definition sum2_1502 :: real where
  "sum2_1502 = 8455508300388106 / 2 ^ 48"

definition sum3_1502 :: real where
  "sum3_1502 = 6341631225291080 / 2 ^ 47"

definition mean_1502 :: real where
  "mean_1502 = 8455508300388107 / 2 ^ 49"

definition ulp_1502 :: real where
  "ulp_1502 = 1 / 2 ^ 49"

definition sq_1502 :: real where
  "sq_1502 = 1 / 2 ^ 98"

section \<open>Loading, validation and classification\<close>

text \<open>
  \<^verbatim>\<open>required_cols - set(df.columns)\<close>, sorted as the message prints it, and
  \<^verbatim>\<open>sorted(df.columns)\<close>: texts sort among themselves and numbers among themselves;
  Python refuses to compare a text with a number, here \<open>None\<close>.
\<close>

definition required_cols :: "config \<Rightarrow> string list" where
  "required_cols cfg =
     [control_search_col cfg, ref_search_col cfg, sample_name_col cfg, cq_col cfg, well_col cfg]"

definition missing_cols :: "config \<Rightarrow> table \<Rightarrow> string list" where
  "missing_cols cfg t =
     sort (remdups (filter (\<lambda>c. Name c \<notin> set (columns t)) (required_cols cfg)))"

definition label_names :: "label list \<Rightarrow> string list" where
  "label_names ls = concat (map (\<lambda>l. case l of Name s \<Rightarrow> [s] | Number x \<Rightarrow> []) ls)"

definition label_numbers :: "label list \<Rightarrow> real list" where
  "label_numbers ls = concat (map (\<lambda>l. case l of Name s \<Rightarrow> [] | Number x \<Rightarrow> [x]) ls)"

definition sorted_labels :: "label list \<Rightarrow> label list option" where
  "sorted_labels ls =
     (if label_numbers ls = [] then Some (map Name (sort (label_names ls)))
      else if label_names ls = [] then Some (map Number (sort (label_numbers ls)))
      else None)"

definition to_numeric :: "pylib \<Rightarrow> cell \<Rightarrow> real option" where
  "to_numeric lib c = (case c of Num x \<Rightarrow> Some x | Txt s \<Rightarrow> parse_float lib s | Empty \<Rightarrow> None)"

definition astype_str :: "pylib \<Rightarrow> cell \<Rightarrow> string" where
  "astype_str lib c = (case c of Txt s \<Rightarrow> s | Num x \<Rightarrow> float_str lib x | Empty \<Rightarrow> ''nan'')"

text \<open>
  Step 0 of the source: the quantification column is coerced and the rows where it is
  missing are dropped; each surviving row keeps its index of the sheet.
\<close>

definition numeric_rows :: "pylib \<Rightarrow> config \<Rightarrow> table \<Rightarrow> (nat \<times> row \<times> real) list" where
  "numeric_rows lib cfg t =
     List.map_filter
       (\<lambda>(i, r). map_option (\<lambda>x. (i, r, x)) (to_numeric lib (r (cq_col cfg))))
       (zip [0..<length (body t)] (body t))"

text \<open>
  The row after \<^verbatim>\<open>df[cq_col] = pd.to_numeric(...)\<close> and the loop
  \<^verbatim>\<open>df[col] = df[col].astype(str)\<close> over the three text columns, in the source's order.
\<close>

definition stringify :: "pylib \<Rightarrow> row \<Rightarrow> string \<Rightarrow> row" where
  "stringify lib r c = r(c := Txt (astype_str lib (r c)))"

definition normalise :: "pylib \<Rightarrow> config \<Rightarrow> row \<Rightarrow> real \<Rightarrow> row" where
  "normalise lib cfg r x =
     foldl (stringify lib) (r(cq_col cfg := Num x))
       [control_search_col cfg, ref_search_col cfg, sample_name_col cfg]"

text \<open>
  \<^verbatim>\<open>_split_group_sample\<close>: the group is the label before its last hyphen
  (\<^verbatim>\<open>label.rsplit("-", 1)[0]\<close>), the sample is the whole label.
\<close>

definition split_group_sample :: "string \<Rightarrow> string \<times> string" where
  "split_group_sample label =
     (if CHR ''-'' \<in> set label
      then (rev (tl (dropWhile (\<lambda>c. c \<noteq> CHR ''-'') (rev label))), label)
      else (label, label))"

text \<open>
  A row of the working frame. \<open>idx\<close> is the frame's index label. \<open>is_ref\<close> and
  \<open>is_control\<close> are the entries of \<^verbatim>\<open>ref_mask\<close> and \<^verbatim>\<open>control_mask\<close> at that
  label: both masks are computed once, before the outlier filter, and every later
  \<^verbatim>\<open>df.loc[mask]\<close> aligns them on the index. \<open>gene\<close> is the text of
  \<^verbatim>\<open>ref_search_col\<close>, \<open>control_text\<close> that of \<^verbatim>\<open>control_search_col\<close>,
  \<open>sample_label\<close> and \<open>grp\<close> the derived columns \<^verbatim>\<open>_SampleLabel\<close> and
  \<^verbatim>\<open>Group\<close>.
\<close>

record wrow =
  idx :: nat
  control_text :: string
  gene :: string
  sample_label :: string
  grp :: string
  well_id :: cell
  cq :: real
  is_ref :: bool
  is_control :: bool

definition mk_wrow ::
  "pylib \<Rightarrow> config \<Rightarrow> (string \<Rightarrow> bool) \<Rightarrow> (string \<Rightarrow> bool) \<Rightarrow> nat \<times> row \<times> real \<Rightarrow> wrow" where
  "mk_wrow lib cfg control_re ref_re irx =
     (case irx of (i, r, x) \<Rightarrow>
        let r' = normalise lib cfg r x;
            parsed = split_group_sample (astype_str lib (r' (sample_name_col cfg)))
        in \<lparr> idx = i,
             control_text = astype_str lib (r' (control_search_col cfg)),
             gene = astype_str lib (r' (ref_search_col cfg)),
             sample_label = snd parsed,
             grp = fst parsed,
             well_id = r' (well_col cfg),
             cq = x,
             is_ref = ref_re (astype_str lib (r' (ref_search_col cfg))),
             is_control = control_re (astype_str lib (r' (control_search_col cfg))) \<rparr>)"

text \<open>
  The embedding reads the quantification value of a working row from \<open>cq\<close>. That is
  the source's \<^verbatim>\<open>df[cq_col]\<close> when the quantification column is none of the three
  text columns and no configured column is one of the derived columns; \<open>cfg_ok\<close>
  says so, and the theorems about the values and checks after the filter assume it.
  The default configuration is of this kind.
\<close>

definition derived_cols :: "string list" where
  "derived_cols = [''Group'', ''_SampleLabel'', ''_Outlier'', ''ref_mean_cq'']"

definition cfg_ok :: "config \<Rightarrow> bool" where
  "cfg_ok cfg \<longleftrightarrow>
     cq_col cfg \<notin> set [control_search_col cfg, ref_search_col cfg, sample_name_col cfg] \<and>
     set (required_cols cfg) \<inter> set derived_cols = {}"

text \<open>
  The source up to the control sanity check: column check, coercion, compilation of
  the two patterns, the two masks, \<^verbatim>\<open>if not control_mask.any()\<close>, label parsing.
\<close>

definition classify :: "pylib \<Rightarrow> config \<Rightarrow> table \<Rightarrow> error + wrow list" where
  "classify lib cfg t =
     (let missing = missing_cols cfg t in
      if missing \<noteq> [] then
        (case sorted_labels (columns t) of
           None \<Rightarrow> Inl TypeError
         | Some present \<Rightarrow> Inl (SchemaError missing present))
      else
        (case re_compile lib (assume_case_insensitive_regex cfg) (control_group_regex cfg) of
           None \<Rightarrow> Inl PatternError
         | Some control_re \<Rightarrow>
             (case re_compile lib (assume_case_insensitive_regex cfg) (ref_gene_regex cfg) of
                None \<Rightarrow> Inl PatternError
              | Some ref_re \<Rightarrow>
                  let df = map (mk_wrow lib cfg control_re ref_re) (numeric_rows lib cfg t) in
                  if \<not> list_ex is_control df then Inl NoControlMatchError
                  else Inr df)))"

section \<open>The outlier filter\<close>

text \<open>
  \<^verbatim>\<open>groupby(keys)\<close> with pandas' default \<^verbatim>\<open>sort=True\<close>: one group per distinct key,
  keys ascending, each group's rows in frame order. pandas' operations are taken with
  their documented meaning throughout.
\<close>

definition groupby :: "('a \<Rightarrow> 'k::linorder) \<Rightarrow> 'a list \<Rightarrow> ('k \<times> 'a list) list" where
  "groupby key xs =
     map (\<lambda>k. (k, filter (\<lambda>x. key x = k) xs)) (sort (remdups (map key xs)))"

text \<open>
  \<^verbatim>\<open>str.lower\<close> on the ASCII letters. No character outside ASCII lowercases to a
  letter of \<open>mad\<close>, \<open>iqr\<close> or \<open>zscore\<close>, so the method dispatch below sees what
  Python's does.
\<close>

definition lower_char :: "char \<Rightarrow> char" where
  "lower_char c =
     (if CHR ''A'' \<le> c \<and> c \<le> CHR ''Z'' then char_of (of_char c + (32::nat)) else c)"

definition str_lower :: "string \<Rightarrow> string" where
  "str_lower s = map lower_char s"

definition group_flag :: "config \<Rightarrow> wrow list \<Rightarrow> bool list" where
  "group_flag cfg g =
     (if int (length g) < outlier_min_reps cfg then map (\<lambda>_. False) g
      else flag_outliers (map cq g) (str_lower (outlier_method cfg)) (outlier_threshold cfg))"

text \<open>
  \<^verbatim>\<open>df.groupby(grp_keys).apply(_group_flag)\<close>: pandas concatenates the flag series of
  the groups into one series, each flag at the index label of its row; that is
  \<open>outlier_mask\<close>. When the frame is a single group, the results all carry one and the
  same index and pandas stacks them instead, into a frame with one row for the group
  and one column for each row of the group; \<open>apply_gives_frame\<close> says so.
  \<open>is_outlier\<close> is the column \<^verbatim>\<open>_Outlier\<close>:
  \<^verbatim>\<open>outlier_mask.reindex(df.index).fillna(False)\<close>, and \<open>False\<close> where the stacked
  frame, which has no row at an index label of the data, was reindexed and filled.
\<close>

definition apply_gives_frame :: "wrow list \<Rightarrow> bool" where
  "apply_gives_frame df \<longleftrightarrow> length (groupby (\<lambda>r. (sample_label r, gene r)) df) = 1"

definition outlier_mask :: "config \<Rightarrow> wrow list \<Rightarrow> (nat \<times> bool) list" where
  "outlier_mask cfg df =
     concat (map (\<lambda>(k, g). zip (map idx g) (group_flag cfg g))
       (groupby (\<lambda>r. (sample_label r, gene r)) df))"

definition is_outlier :: "config \<Rightarrow> wrow list \<Rightarrow> wrow \<Rightarrow> bool" where
  "is_outlier cfg df r =
     (if apply_gives_frame df then False
      else case map_of (outlier_mask cfg df) (idx r) of Some b \<Rightarrow> b | None \<Rightarrow> False)"

text \<open>
  The filter step: the frame without its flagged rows, and \<^verbatim>\<open>outliers_df\<close>, which
  exists only when the filter is enabled. The assignment
  \<^verbatim>\<open>df["_Outlier"] = ...\<close> takes a series or a frame of one column: the stacked frame
  of a single group of two or more rows has as many columns as rows, and pandas raises.
\<close>

definition filter_outliers ::
  "config \<Rightarrow> wrow list \<Rightarrow> error + wrow list \<times> wrow list option" where
  "filter_outliers cfg df =
     (if enable_outlier_filter cfg then
        (if apply_gives_frame df \<and> 2 \<le> length df then Inl FrameShapeError
         else Inr (filter (\<lambda>r. \<not> is_outlier cfg df r) df, Some (filter (is_outlier cfg df) df)))
      else Inr (df, None))"

section \<open>\<open>\<Delta>Ct\<close>: the reference mean of each sample\<close>

text \<open>
  \<^verbatim>\<open>ref_per_sample\<close>: the mean quantification value of the reference rows of each
  sample label. The left merge attaches it to every row; a row whose label has no
  entry gets NaN.
\<close>

definition ref_per_sample :: "wrow list \<Rightarrow> (string \<times> real option) list" where
  "ref_per_sample df =
     map (\<lambda>(s, g). (s, mean (map cq g))) (groupby sample_label (filter is_ref df))"

definition ref_mean_of :: "wrow list \<Rightarrow> wrow \<Rightarrow> real option" where
  "ref_mean_of df r =
     (case map_of (ref_per_sample df) (sample_label r) of Some (Some m) \<Rightarrow> Some m | _ \<Rightarrow> None)"

record dct_row =
  base :: wrow
  ref_mean_cq :: real
  dct :: real

definition delta_ct :: "wrow list \<Rightarrow> error + dct_row list" where
  "delta_ct df =
     (let missing = filter (\<lambda>r. ref_mean_of df r = None) df in
      if missing \<noteq> [] then
        Inl (MissingReferenceError (sort (remdups (map sample_label missing))))
      else
        Inr (List.map_filter
               (\<lambda>r. map_option (\<lambda>m. \<lparr> base = r, ref_mean_cq = m, dct = cq r - m \<rparr>)
                      (ref_mean_of df r))
               df))"

section \<open>\<open>\<Delta>\<Delta>Ct\<close>: the control baseline of each gene\<close>

text \<open>
  \<^verbatim>\<open>control_per_sample\<close> is the mean \<open>\<Delta>Ct\<close> of the control rows of each
  (sample, gene); \<^verbatim>\<open>control_baseline\<close> is the mean of those means for each gene
  (pandas' mean skips NaN).
\<close>

definition control_per_sample :: "dct_row list \<Rightarrow> ((string \<times> string) \<times> real option) list" where
  "control_per_sample dt =
     map (\<lambda>(k, g). (k, mean (map dct g)))
       (groupby (\<lambda>r. (sample_label (base r), gene (base r)))
          (filter (\<lambda>r. is_control (base r)) dt))"

definition control_baseline :: "dct_row list \<Rightarrow> (string \<times> real option) list" where
  "control_baseline dt =
     map (\<lambda>(g, items). (g, mean (List.map_filter snd items)))
       (groupby (\<lambda>item. snd (fst item)) (control_per_sample dt))"

definition control_mean_of :: "dct_row list \<Rightarrow> dct_row \<Rightarrow> real option" where
  "control_mean_of dt r =
     (case map_of (control_baseline dt) (gene (base r)) of Some (Some m) \<Rightarrow> Some m | _ \<Rightarrow> None)"

record ddct_row =
  src :: dct_row
  control_mean_dct :: real
  ddct :: real
  fold_change :: real

definition delta_delta_ct :: "dct_row list \<Rightarrow> error + ddct_row list" where
  "delta_delta_ct dt =
     (let missing = filter (\<lambda>r. control_mean_of dt r = None) dt in
      if missing \<noteq> [] then
        Inl (MissingControlBaselineError (sort (remdups (map (\<lambda>r. gene (base r)) missing))))
      else
        Inr (List.map_filter
               (\<lambda>r. map_option
                      (\<lambda>m. \<lparr> src = r, control_mean_dct = m, ddct = dct r - m,
                             fold_change = 2 powr (- (dct r - m)) \<rparr>)
                      (control_mean_of dt r))
               dt))"

section \<open>The result tables\<close>

record well_out =
  w_gene :: string
  w_group :: string
  w_sample :: string
  w_well :: cell
  w_cq :: real
  w_dct :: real
  w_ddct :: real
  w_fold :: real

definition to_well_out :: "ddct_row \<Rightarrow> well_out" where
  "to_well_out r =
     \<lparr> w_gene = gene (base (src r)), w_group = grp (base (src r)),
       w_sample = sample_label (base (src r)), w_well = well_id (base (src r)),
       w_cq = cq (base (src r)), w_dct = dct (src r), w_ddct = ddct r,
       w_fold = fold_change r \<rparr>"

text \<open>\<^verbatim>\<open>sort_values(["Gene", "Group", "Sample"], kind="mergesort")\<close> is a stable sort.\<close>

definition well_rows :: "ddct_row list \<Rightarrow> well_out list" where
  "well_rows rows = sort_key (\<lambda>w. (w_gene w, w_group w, w_sample w)) (map to_well_out rows)"

record sample_out =
  s_gene :: string
  s_group :: string
  s_sample :: string
  s_cq :: "real option"
  s_dct :: "real option"
  s_ddct :: "real option"
  s_fold :: "real option"

definition sample_rows :: "config \<Rightarrow> ddct_row list \<Rightarrow> error + sample_out list" where
  "sample_rows cfg rows =
     (let sample_source =
            (if exclude_ref_in_sample_sheet cfg
             then filter (\<lambda>r. \<not> is_ref (base (src r))) rows else rows)
      in if sample_source = [] then Inl EmptyResultError
         else
           Inr (sort_key (\<lambda>s. (s_gene s, s_group s, s_sample s))
                  (map (\<lambda>(k, g).
                          \<lparr> s_gene = snd (snd k), s_group = fst k, s_sample = fst (snd k),
                            s_cq = mean (map (\<lambda>r. cq (base (src r))) g),
                            s_dct = mean (map (\<lambda>r. dct (src r)) g),
                            s_ddct = mean (map ddct g),
                            s_fold = mean (map fold_change g) \<rparr>)
                     (groupby
                        (\<lambda>r. (grp (base (src r)), sample_label (base (src r)), gene (base (src r))))
                        sample_source))))"

record results =
  well_df :: "well_out list"
  sample_df :: "sample_out list"
  outliers_df :: "wrow list option"

text \<open>
  The computation between \<^verbatim>\<open>pd.read_excel\<close> and the export: every
  \<^verbatim>\<open>raise\<close> of the source is an \<open>Inl\<close> here, in the source's order.
  \<open>working_table\<close> is the frame that reaches the \<open>\<Delta>Ct\<close> stage, with the audit
  frame of removed rows; \<open>dct_table\<close> is the frame after the \<open>\<Delta>Ct\<close> stage.
\<close>

definition working_table ::
  "pylib \<Rightarrow> config \<Rightarrow> table \<Rightarrow> error + wrow list \<times> wrow list option" where
  "working_table lib cfg t =
     (case classify lib cfg t of
        Inl e \<Rightarrow> Inl e
      | Inr df0 \<Rightarrow> filter_outliers cfg df0)"

definition dct_table :: "pylib \<Rightarrow> config \<Rightarrow> table \<Rightarrow> error + dct_row list" where
  "dct_table lib cfg t =
     (case working_table lib cfg t of
        Inl e \<Rightarrow> Inl e
      | Inr w \<Rightarrow> delta_ct (fst w))"

definition compute_tables :: "pylib \<Rightarrow> config \<Rightarrow> table \<Rightarrow> error + results" where
  "compute_tables lib cfg t =
     (case working_table lib cfg t of
        Inl e \<Rightarrow> Inl e
      | Inr w \<Rightarrow>
          (case delta_ct (fst w) of
             Inl e \<Rightarrow> Inl e
           | Inr dt \<Rightarrow>
               (case delta_delta_ct dt of
                  Inl e \<Rightarrow> Inl e
                | Inr rows \<Rightarrow>
                    (case sample_rows cfg rows of
                       Inl e \<Rightarrow> Inl e
                     | Inr sdf \<Rightarrow>
                         Inr \<lparr> well_df = well_rows rows, sample_df = sdf,
                               outliers_df = snd w \<rparr>))))"

section \<open>Export\<close>

text \<open>
  \<^verbatim>\<open>os.path.split\<close>, \<^verbatim>\<open>os.path.splitext\<close> and \<^verbatim>\<open>os.path.join\<close> of Python's
  \<^verbatim>\<open>posixpath\<close>, on which the default output path is built. \<open>rfind\<close> is
  \<^verbatim>\<open>str.rfind\<close> of a single character: the last position, or \<open>-1\<close>.
\<close>

definition rfind :: "string \<Rightarrow> char \<Rightarrow> int" where
  "rfind p c = int (length p) - 1 - int (length (takeWhile (\<lambda>x. x \<noteq> c) (rev p)))"

definition rstrip_sep :: "string \<Rightarrow> string" where
  "rstrip_sep h = rev (dropWhile (\<lambda>c. c = CHR ''/'') (rev h))"

definition path_split :: "string \<Rightarrow> string \<times> string" where
  "path_split p =
     (let i = nat (rfind p CHR ''/'' + 1); head = take i p; tail = drop i p in
      (if head \<noteq> [] \<and> head \<noteq> replicate (length head) CHR ''/'' then rstrip_sep head else head,
       tail))"

definition splitext :: "string \<Rightarrow> string \<times> string" where
  "splitext p =
     (let sepIndex = rfind p CHR ''/''; dotIndex = rfind p CHR ''.'' in
      if dotIndex > sepIndex \<and>
         list_ex (\<lambda>c. c \<noteq> CHR ''.'') (take (nat (dotIndex - (sepIndex + 1))) (drop (nat (sepIndex + 1)) p))
      then (take (nat dotIndex) p, drop (nat dotIndex) p)
      else (p, []))"

definition path_join :: "string \<Rightarrow> string \<Rightarrow> string" where
  "path_join a b =
     (if b \<noteq> [] \<and> hd b = CHR ''/'' then b
      else if a = [] \<or> last a = CHR ''/'' then a @ b
      else a @ ''/'' @ b)"

definition default_output_path :: "string \<Rightarrow> string" where
  "default_output_path path =
     (let base = fst (path_split path); stem = snd (path_split path);
          root = fst (splitext stem)
      in path_join (if base = [] then ''.'' else base) (root @ ''_ddct.xlsx''))"

text \<open>
  The sheets as written. A written row is a map from the sheet's column names to
  cells; \<open>delta\<close> is the UTF-8 encoding of the Greek capital letter in the column
  names \<open>\<Delta>Ct\<close> and \<open>\<Delta>\<Delta>Ct\<close>.
\<close>

definition delta :: string where
  "delta = [CHR 0xCE, CHR 0x94]"

definition row_of :: "(string \<times> cell) list \<Rightarrow> row" where
  "row_of kvs = (\<lambda>c. case map_of kvs c of Some v \<Rightarrow> v | None \<Rightarrow> Empty)"

definition num_cell :: "real option \<Rightarrow> cell" where
  "num_cell x = (case x of Some v \<Rightarrow> Num v | None \<Rightarrow> Empty)"

definition well_sheet :: "config \<Rightarrow> well_out list \<Rightarrow> table" where
  "well_sheet cfg ws =
     \<lparr> columns = map Name [''Gene'', ''Group'', ''Sample'', well_col cfg, cq_col cfg,
                  delta @ ''Ct'', delta @ delta @ ''Ct'', ''Fold Change''],
       body = map (\<lambda>w. row_of
                [(''Gene'', Txt (w_gene w)), (''Group'', Txt (w_group w)),
                 (''Sample'', Txt (w_sample w)), (well_col cfg, w_well w),
                 (cq_col cfg, Num (w_cq w)), (delta @ ''Ct'', Num (w_dct w)),
                 (delta @ delta @ ''Ct'', Num (w_ddct w)), (''Fold Change'', Num (w_fold w))]) ws \<rparr>"

definition sample_sheet :: "sample_out list \<Rightarrow> table" where
  "sample_sheet ss =
     \<lparr> columns = map Name [''Gene'', ''Group'', ''Sample'', ''Cq'',
                  delta @ ''Ct'', delta @ delta @ ''Ct'', ''Fold Change''],
       body = map (\<lambda>s. row_of
                [(''Gene'', Txt (s_gene s)), (''Group'', Txt (s_group s)),
                 (''Sample'', Txt (s_sample s)), (''Cq'', num_cell (s_cq s)),
                 (delta @ ''Ct'', num_cell (s_dct s)),
                 (delta @ delta @ ''Ct'', num_cell (s_ddct s)),
                 (''Fold Change'', num_cell (s_fold s))]) ss \<rparr>"

text \<open>
  The audit sheet is sorted by (Gene, Group, Sample, Well). \<open>cell_key\<close> orders the
  well identifiers: numbers by value, texts by code point, missing values last.
\<close>

definition cell_key :: "cell \<Rightarrow> nat \<times> real \<times> string" where
  "cell_key c = (case c of Num x \<Rightarrow> (0, x, []) | Txt s \<Rightarrow> (1, 0, s) | Empty \<Rightarrow> (2, 0, []))"

definition outliers_sheet :: "config \<Rightarrow> wrow list \<Rightarrow> table" where
  "outliers_sheet cfg os =
     \<lparr> columns = map Name [''Group'', ''Sample'', ''Gene'', well_col cfg, ''Cq''],
       body = map (\<lambda>r. row_of
                [(''Group'', Txt (grp r)), (''Sample'', Txt (sample_label r)),
                 (''Gene'', Txt (gene r)), (well_col cfg, well_id r), (''Cq'', Num (cq r))])
              (sort_key (\<lambda>r. (gene r, grp r, sample_label r, cell_key (well_id r))) os) \<rparr>"

text \<open>
  Step 5 of the source. The audit sheet is sorted by the literal column name
  \<^verbatim>\<open>"Well"\<close>: with another well column \<^verbatim>\<open>sort_values\<close> raises \<^verbatim>\<open>KeyError\<close>
  inside the writer's \<^verbatim>\<open>with\<close> block, whose exit saves the two sheets written so far.
\<close>

definition export :: "config \<Rightarrow> results \<Rightarrow> store \<Rightarrow> (error + string) \<times> store" where
  "export cfg res fs =
     (let path = (case output_path cfg of
                    None \<Rightarrow> default_output_path (excel_path cfg)
                  | Some p \<Rightarrow> p);
          sheets = [(''well'', well_sheet cfg (well_df res)),
                    (''sample'', sample_sheet (sample_df res))]
      in case outliers_df res of
           None \<Rightarrow> (Inr path, fs(path \<mapsto> sheets))
         | Some os \<Rightarrow>
             if record_outliers cfg \<and> os \<noteq> [] then
               (if well_col cfg = ''Well''
                then (Inr path, fs(path \<mapsto> sheets @ [(''outliers'', outliers_sheet cfg os)]))
                else (Inl (KeyError ''Well''), fs(path \<mapsto> sheets)))
             else (Inr path, fs(path \<mapsto> sheets)))"

section \<open>The engine\<close>

definition read_excel :: "store \<Rightarrow> string \<Rightarrow> sheet_sel \<Rightarrow> error + table" where
  "read_excel fs path sel =
     (case fs path of
        None \<Rightarrow> Inl ReadError
      | Some wb \<Rightarrow>
          (case sel of
             SheetIndex i \<Rightarrow> if i < length wb then Inr (snd (wb ! i)) else Inl ReadError
           | SheetName n \<Rightarrow>
               (case map_of wb n of None \<Rightarrow> Inl ReadError | Some t \<Rightarrow> Inr t)))"

text \<open>
  \<^verbatim>\<open>compute_ddct\<close>: the result or the error raised, and the store of workbooks after
  the call.
\<close>

definition compute_ddct ::
  "pylib \<Rightarrow> config \<Rightarrow> store \<Rightarrow> (error + well_out list \<times> sample_out list \<times> string) \<times> store" where
  "compute_ddct lib cfg fs =
     (case read_excel fs (excel_path cfg) (sheet_name cfg) of
        Inl e \<Rightarrow> (Inl e, fs)
      | Inr t \<Rightarrow>
          (case compute_tables lib cfg t of
             Inl e \<Rightarrow> (Inl e, fs)
           | Inr res \<Rightarrow>
               (case export cfg res fs of
                  (Inl e, fs') \<Rightarrow> (Inl e, fs')
                | (Inr path, fs') \<Rightarrow> (Inr (well_df res, sample_df res, path), fs'))))"

section \<open>Terminal errors and sample inputs\<close>

text \<open>The five errors the engine raises itself.\<close>

definition terminal :: "error \<Rightarrow> bool" where
  "terminal e =
     (case e of
        SchemaError ms ps \<Rightarrow> True
      | NoControlMatchError \<Rightarrow> True
      | MissingReferenceError ss \<Rightarrow> True
      | MissingControlBaselineError gs \<Rightarrow> True
      | EmptyResultError \<Rightarrow> True
      | _ \<Rightarrow> False)"

text \<open>
  A small library for running the engine on sample inputs: a pattern \<open>^abc\<close> matches
  the texts that start with \<open>abc\<close>, any other pattern matches the text equal to it;
  text cells are not numbers.
\<close>

definition sample_lib :: pylib where
  "sample_lib =
     \<lparr> re_compile =
         (\<lambda>flags p. Some (\<lambda>x. if p \<noteq> [] \<and> hd p = CHR ''^''
                                then take (length p - 1) x = tl p else x = p)),
       parse_float = (\<lambda>s. None),
       float_str = (\<lambda>x. ''?'') \<rparr>"

definition plate_row :: "cell \<Rightarrow> string \<Rightarrow> string \<Rightarrow> cell \<Rightarrow> row" where
  "plate_row w target sample c =
     row_of [(''Well'', w), (''Target'', Txt target), (''Sample'', Txt sample), (''Cq'', c)]"

definition plate :: "row list \<Rightarrow> table" where
  "plate rs = \<lparr> columns = map Name [''Well'', ''Target'', ''Sample'', ''Cq''], body = rs \<rparr>"

definition one_sheet :: "string \<Rightarrow> table \<Rightarrow> store" where
  "one_sheet path t = (\<lambda>p. None)(path \<mapsto> [(''Sheet1'', t)])"

text \<open>
  The four-row plate of the end-to-end scenario, with any four well identifiers, in the
  default column layout, and the frames the engine makes of it stage by stage.
\<close>

definition four_rows :: "cell \<Rightarrow> cell \<Rightarrow> cell \<Rightarrow> cell \<Rightarrow> row list" where
  "four_rows w1 w2 w3 w4 =
     [plate_row w1 ''CTR-1'' ''ACTB'' (Num 18.0), plate_row w2 ''CTR-1'' ''GeneX'' (Num 22.0),
      plate_row w3 ''MT-1'' ''ACTB'' (Num 18.5), plate_row w4 ''MT-1'' ''GeneX'' (Num 24.0)]"

definition four_wrows :: "cell \<Rightarrow> cell \<Rightarrow> cell \<Rightarrow> cell \<Rightarrow> wrow list" where
  "four_wrows w1 w2 w3 w4 =
   [\<lparr>idx = 0, control_text = ''CTR-1'', gene = ''ACTB'', sample_label = ''CTR-1'', grp = ''CTR'',
      well_id = w1, cq = 18, is_ref = True, is_control = True\<rparr>,
    \<lparr>idx = 1, control_text = ''CTR-1'', gene = ''GeneX'', sample_label = ''CTR-1'', grp = ''CTR'',
      well_id = w2, cq = 22, is_ref = False, is_control = True\<rparr>,
    \<lparr>idx = 2, control_text = ''MT-1'', gene = ''ACTB'', sample_label = ''MT-1'', grp = ''MT'',
      well_id = w3, cq = 18.5, is_ref = True, is_control = False\<rparr>,
    \<lparr>idx = 3, control_text = ''MT-1'', gene = ''GeneX'', sample_label = ''MT-1'', grp = ''MT'',
      well_id = w4, cq = 24, is_ref = False, is_control = False\<rparr>]"

definition four_dct_rows :: "cell \<Rightarrow> cell \<Rightarrow> cell \<Rightarrow> cell \<Rightarrow> dct_row list" where
  "four_dct_rows w1 w2 w3 w4 =
     map (\<lambda>(r, m, d). \<lparr> base = r, ref_mean_cq = m, dct = d \<rparr>)
       (zip (four_wrows w1 w2 w3 w4) [(18, 0), (18, 4), (18.5, 0), (18.5, 5.5)])"

definition four_ddct_rows :: "cell \<Rightarrow> cell \<Rightarrow> cell \<Rightarrow> cell \<Rightarrow> ddct_row list" where
  "four_ddct_rows w1 w2 w3 w4 =
     map (\<lambda>(r, m, d, f). \<lparr> src = r, control_mean_dct = m, ddct = d, fold_change = f \<rparr>)
       (zip (four_dct_rows w1 w2 w3 w4) [(0, 0, 1), (4, 0, 1), (0, 0, 1), (4, 1.5, 2 powr (- 1.5))])"

definition four_well_df :: "cell \<Rightarrow> cell \<Rightarrow> cell \<Rightarrow> cell \<Rightarrow> well_out list" where
  "four_well_df w1 w2 w3 w4 =
    [\<lparr> w_gene = ''ACTB'', w_group = ''CTR'', w_sample = ''CTR-1'', w_well = w1,
       w_cq = 18, w_dct = 0, w_ddct = 0, w_fold = 1 \<rparr>,
     \<lparr> w_gene = ''ACTB'', w_group = ''MT'', w_sample = ''MT-1'', w_well = w3,
       w_cq = 18.5, w_dct = 0, w_ddct = 0, w_fold = 1 \<rparr>,
     \<lparr> w_gene = ''GeneX'', w_group = ''CTR'', w_sample = ''CTR-1'', w_well = w2,
       w_cq = 22, w_dct = 4, w_ddct = 0, w_fold = 1 \<rparr>,
     \<lparr> w_gene = ''GeneX'', w_group = ''MT'', w_sample = ''MT-1'', w_well = w4,
       w_cq = 24, w_dct = 5.5, w_ddct = 1.5, w_fold = 2 powr (- 1.5) \<rparr>]"

definition four_sample_df :: "sample_out list" where
  "four_sample_df =
    [\<lparr> s_gene = ''ACTB'', s_group = ''CTR'', s_sample = ''CTR-1'',
       s_cq = Some 18, s_dct = Some 0, s_ddct = Some 0, s_fold = Some 1 \<rparr>,
     \<lparr> s_gene = ''ACTB'', s_group = ''MT'', s_sample = ''MT-1'',
       s_cq = Some 18.5, s_dct = Some 0, s_ddct = Some 0, s_fold = Some 1 \<rparr>,
     \<lparr> s_gene = ''GeneX'', s_group = ''CTR'', s_sample = ''CTR-1'',
       s_cq = Some 22, s_dct = Some 4, s_ddct = Some 0, s_fold = Some 1 \<rparr>,
     \<lparr> s_gene = ''GeneX'', s_group = ''MT'', s_sample = ''MT-1'',
       s_cq = Some 24, s_dct = Some 5.5, s_ddct = Some 1.5, s_fold = Some (2 powr (- 1.5)) \<rparr>]"

text \<open>The (Sample, Gene) partition of a row: the rows of the frame with its sample label and gene.\<close>

definition partition_of :: "wrow list \<Rightarrow> wrow \<Rightarrow> wrow list" where
  "partition_of df r = filter (\<lambda>x. sample_label x = sample_label r \<and> gene x = gene r) df"

text \<open>
  A plate whose (CTR-1, GeneX) partition has two wells, one of them far off.
\<close>

definition lone_pair_rows :: "row list" where
  "lone_pair_rows =
     [plate_row (Txt ''A1'') ''CTR-1'' ''ACTB'' (Num 18.0),
      plate_row (Txt ''A2'') ''CTR-1'' ''GeneX'' (Num 22.0),
      plate_row (Txt ''A3'') ''CTR-1'' ''GeneX'' (Num 95.0)]"

definition lone_pair_wrows :: "wrow list" where
  "lone_pair_wrows =
   [\<lparr>idx = 0, control_text = ''CTR-1'', gene = ''ACTB'', sample_label = ''CTR-1'', grp = ''CTR'',
      well_id = Txt ''A1'', cq = 18, is_ref = True, is_control = True\<rparr>,
    \<lparr>idx = 1, control_text = ''CTR-1'', gene = ''GeneX'', sample_label = ''CTR-1'', grp = ''CTR'',
      well_id = Txt ''A2'', cq = 22, is_ref = False, is_control = True\<rparr>,
    \<lparr>idx = 2, control_text = ''CTR-1'', gene = ''GeneX'', sample_label = ''CTR-1'', grp = ''CTR'',
      well_id = Txt ''A3'', cq = 95, is_ref = False, is_control = True\<rparr>]"

text \<open>
  The default configuration on \<open>plate.xlsx\<close> with a given outlier method, and a plate
  with a single (Sample, Gene) partition: the reference gene of the control sample in
  two wells.
\<close>

definition cfg_of_method :: "string \<Rightarrow> config" where
  "cfg_of_method m = (default_config ''plate.xlsx'' ''^CTR'' ''ACTB'')\<lparr>outlier_method := m\<rparr>"

definition single_pair_rows :: "row list" where
  "single_pair_rows =
     [plate_row (Txt ''A1'') ''CTR-1'' ''ACTB'' (Num 20.0),
      plate_row (Txt ''A2'') ''CTR-1'' ''ACTB'' (Num 21.0)]"

definition single_pair_wrows :: "wrow list" where
  "single_pair_wrows =
   [\<lparr>idx = 0, control_text = ''CTR-1'', gene = ''ACTB'', sample_label = ''CTR-1'', grp = ''CTR'',
      well_id = Txt ''A1'', cq = 20, is_ref = True, is_control = True\<rparr>,
    \<lparr>idx = 1, control_text = ''CTR-1'', gene = ''ACTB'', sample_label = ''CTR-1'', grp = ''CTR'',
      well_id = Txt ''A2'', cq = 21, is_ref = True, is_control = True\<rparr>]"



text \<open>
  A row lacks a reference when no row of the frame with its sample label is a
  reference-gene row.
\<close>

definition lacks_reference :: "wrow list \<Rightarrow> wrow \<Rightarrow> bool" where
  "lacks_reference df r \<longleftrightarrow> \<not> list_ex (\<lambda>x. is_ref x \<and> sample_label x = sample_label r) df"

text \<open>A plate on which sample CTR-1 has a target-gene well and no reference-gene well.\<close>

definition no_reference_rows :: "row list" where
  "no_reference_rows =
     [plate_row (Txt ''A1'') ''CTR-1'' ''GeneX'' (Num 22.0),
      plate_row (Txt ''B1'') ''MT-1'' ''ACTB'' (Num 18.5),
      plate_row (Txt ''B2'') ''MT-1'' ''GeneX'' (Num 24.0)]"

definition no_reference_wrows :: "wrow list" where
  "no_reference_wrows =
   [\<lparr>idx = 0, control_text = ''CTR-1'', gene = ''GeneX'', sample_label = ''CTR-1'', grp = ''CTR'',
      well_id = Txt ''A1'', cq = 22, is_ref = False, is_control = True\<rparr>,
    \<lparr>idx = 1, control_text = ''MT-1'', gene = ''ACTB'', sample_label = ''MT-1'', grp = ''MT'',
      well_id = Txt ''B1'', cq = 18.5, is_ref = True, is_control = False\<rparr>,
    \<lparr>idx = 2, control_text = ''MT-1'', gene = ''GeneX'', sample_label = ''MT-1'', grp = ''MT'',
      well_id = Txt ''B2'', cq = 24, is_ref = False, is_control = False\<rparr>]"

text \<open>
  A plate whose only control partition (four CTR-1 wells of the reference gene, two at
  20 and two at 22) is flagged whole by \<open>mad\<close> at threshold 0.5, leaving one treated
  target-gene well.
\<close>

definition tight_config :: config where
  "tight_config = (default_config ''plate.xlsx'' ''^CTR'' ''ACTB'')\<lparr>outlier_threshold := 0.5\<rparr>"

definition split_control_rows :: "row list" where
  "split_control_rows =
     [plate_row (Txt ''A1'') ''CTR-1'' ''ACTB'' (Num 20.0),
      plate_row (Txt ''A2'') ''CTR-1'' ''ACTB'' (Num 20.0),
      plate_row (Txt ''A3'') ''CTR-1'' ''ACTB'' (Num 22.0),
      plate_row (Txt ''A4'') ''CTR-1'' ''ACTB'' (Num 22.0),
      plate_row (Txt ''B1'') ''MT-1'' ''GeneX'' (Num 25.0)]"

definition control_wrow :: "nat \<Rightarrow> string \<Rightarrow> real \<Rightarrow> wrow" where
  "control_wrow i w x =
     \<lparr>idx = i, control_text = ''CTR-1'', gene = ''ACTB'', sample_label = ''CTR-1'', grp = ''CTR'',
      well_id = Txt w, cq = x, is_ref = True, is_control = True\<rparr>"

definition treated_wrow :: wrow where
  "treated_wrow =
     \<lparr>idx = 4, control_text = ''MT-1'', gene = ''GeneX'', sample_label = ''MT-1'', grp = ''MT'',
      well_id = Txt ''B1'', cq = 25, is_ref = False, is_control = False\<rparr>"

definition split_control_wrows :: "wrow list" where
  "split_control_wrows =
     [control_wrow 0 ''A1'' 20, control_wrow 1 ''A2'' 20, control_wrow 2 ''A3'' 22,
      control_wrow 3 ''A4'' 22, treated_wrow]"

section \<open>The control baseline in the spec's words\<close>

text \<open>
  Following the spec: the control rows of a (Sample, Gene), their mean \<open>\<Delta>Ct\<close>, the
  control samples of a gene, and the baseline of a gene as the mean of the per-sample
  means over its control samples. \<open>pooled_mean\<close> is the mean over all control wells of
  the gene, which the baseline is not.
\<close>

definition control_rows_of :: "dct_row list \<Rightarrow> string \<Rightarrow> string \<Rightarrow> dct_row list" where
  "control_rows_of dt s g =
     filter (\<lambda>r. is_control (base r) \<and> sample_label (base r) = s \<and> gene (base r) = g) dt"

definition sample_gene_mean :: "dct_row list \<Rightarrow> string \<Rightarrow> string \<Rightarrow> real" where
  "sample_gene_mean dt s g =
     sum_list (map dct (control_rows_of dt s g)) / real (length (control_rows_of dt s g))"

definition control_samples :: "dct_row list \<Rightarrow> string \<Rightarrow> string set" where
  "control_samples dt g =
     set (map (\<lambda>r. sample_label (base r))
            (filter (\<lambda>r. is_control (base r) \<and> gene (base r) = g) dt))"

definition baseline_spec :: "dct_row list \<Rightarrow> string \<Rightarrow> real" where
  "baseline_spec dt g =
     (\<Sum>s \<in> control_samples dt g. sample_gene_mean dt s g) / real (card (control_samples dt g))"

definition pooled_mean :: "dct_row list \<Rightarrow> string \<Rightarrow> real" where
  "pooled_mean dt g =
     sum_list (map dct (filter (\<lambda>r. is_control (base r) \<and> gene (base r) = g) dt)) /
     real (length (filter (\<lambda>r. is_control (base r) \<and> gene (base r) = g) dt))"

text \<open>
  A plate with two control samples of unequal replicate counts for GeneX: one well of
  CTR-1 (\<open>\<Delta>Ct\<close> 2) and three wells of CTR-2 (\<open>\<Delta>Ct\<close> 4 each).
\<close>

definition uneven_rows :: "row list" where
  "uneven_rows =
     [plate_row (Txt ''A1'') ''CTR-1'' ''ACTB'' (Num 18.0),
      plate_row (Txt ''A2'') ''CTR-1'' ''GeneX'' (Num 20.0),
      plate_row (Txt ''B1'') ''CTR-2'' ''ACTB'' (Num 18.0),
      plate_row (Txt ''B2'') ''CTR-2'' ''GeneX'' (Num 22.0),
      plate_row (Txt ''B3'') ''CTR-2'' ''GeneX'' (Num 22.0),
      plate_row (Txt ''B4'') ''CTR-2'' ''GeneX'' (Num 22.0)]"

definition ctr_wrow :: "nat \<Rightarrow> string \<Rightarrow> string \<Rightarrow> string \<Rightarrow> real \<Rightarrow> bool \<Rightarrow> wrow" where
  "ctr_wrow i w s g x ref =
     \<lparr>idx = i, control_text = s, gene = g, sample_label = s, grp = ''CTR'',
      well_id = Txt w, cq = x, is_ref = ref, is_control = True\<rparr>"

definition uneven_wrows :: "wrow list" where
  "uneven_wrows =
     [ctr_wrow 0 ''A1'' ''CTR-1'' ''ACTB'' 18 True, ctr_wrow 1 ''A2'' ''CTR-1'' ''GeneX'' 20 False,
      ctr_wrow 2 ''B1'' ''CTR-2'' ''ACTB'' 18 True, ctr_wrow 3 ''B2'' ''CTR-2'' ''GeneX'' 22 False,
      ctr_wrow 4 ''B3'' ''CTR-2'' ''GeneX'' 22 False, ctr_wrow 5 ''B4'' ''CTR-2'' ''GeneX'' 22 False]"

definition uneven_dct_rows :: "dct_row list" where
  "uneven_dct_rows =
     map (\<lambda>(r, d). \<lparr> base = r, ref_mean_cq = 18, dct = d \<rparr>)
       (zip uneven_wrows [0, 2, 0, 4, 4, 4])"

definition uneven_ddct_rows :: "ddct_row list" where
  "uneven_ddct_rows =
     map (\<lambda>(r, m, d, f). \<lparr> src = r, control_mean_dct = m, ddct = d, fold_change = f \<rparr>)
       (zip uneven_dct_rows
          [(0, 0, 1), (3, - 1, 2), (0, 0, 1), (3, 1, 1 / 2), (3, 1, 1 / 2), (3, 1, 1 / 2)])"

section \<open>Constant groups have zero spread\<close>

lemma const_replicate: "set xs \<subseteq> {a} \<Longrightarrow> xs = replicate (length xs) a"
  by (induction xs) auto

lemma sort_replicate: "sort (replicate n (a::real)) = replicate n a"
  by (induction n) (auto simp: insort_is_Cons)

lemma median_replicate: "0 < n \<Longrightarrow> median (replicate n a) = Some a"
  by (auto simp: median_def Let_def sort_replicate)

lemma quantile_index:
  assumes "0 < n" "0 \<le> q" "q \<le> 1"
  shows "nat \<lfloor>real (n - 1) * q\<rfloor> < n"
proof -
  have "real (n - 1) * q \<le> real (n - 1)"
    using assms by (simp add: mult_left_le)
  then have "\<lfloor>real (n - 1) * q\<rfloor> \<le> int (n - 1)"
    by linarith
  then show ?thesis
    using assms by linarith
qed

lemma quantile_replicate:
  "0 < n \<Longrightarrow> 0 \<le> q \<Longrightarrow> q \<le> 1 \<Longrightarrow> quantile (replicate n a) q = Some a"
  using quantile_index[of n q]
  by (auto simp: quantile_def Let_def sort_replicate)

lemma mean_replicate: "0 < n \<Longrightarrow> mean (replicate n a) = Some a"
  by (simp add: mean_def sum_list_replicate)

lemma std0_replicate: "0 < n \<Longrightarrow> std0 (replicate n a) = Some 0"
  using mean_replicate[of n 0] by (simp add: std0_def mean_replicate map_replicate_const)

lemma flag_outliers_replicate:
  "flag_outliers (replicate n a) m t = no_flags (replicate n a)"
proof (cases "n = 0")
  case True
  then show ?thesis
    by (simp add: flag_outliers_def no_flags_def median_def quantile_def mean_def
        split: option.splits)
next
  case False
  then have n: "0 < n" by simp
  have m0: "median (replicate n (0::real)) = Some 0"
    using n by (rule median_replicate)
  show ?thesis
    by (simp add: flag_outliers_def median_replicate[OF n] m0 quantile_replicate[OF n]
        mean_replicate[OF n] std0_replicate[OF n])
qed

text \<open>
  In exact arithmetic a partition whose quantification values are all the same value
  \<open>a\<close> has zero spread under each estimator, so \<open>mad\<close>, \<open>iqr\<close> and \<open>zscore\<close> each
  return the all-false series, whatever the threshold.
\<close>

lemma zero_spread_exact:
  assumes "set s \<subseteq> {a}"
  shows "flag_outliers s ''mad'' thresh = map (\<lambda>_. False) s \<and>
         flag_outliers s ''iqr'' thresh = map (\<lambda>_. False) s \<and>
         flag_outliers s ''zscore'' thresh = map (\<lambda>_. False) s"
proof -
  have "s = replicate (length s) a"
    using assms by (rule const_replicate)
  then have "flag_outliers s m thresh = no_flags s" for m
    using flag_outliers_replicate[of "length s" a m thresh] by simp
  then show ?thesis
    by (simp add: no_flags_def)
qed

section \<open>Constant groups in double precision\<close>

text \<open>
  A value whose magnitude, scaled by \<open>2 ^ k\<close>, lies between \<open>2 ^ 52\<close> and \<open>2 ^ 53\<close>
  rounds to the nearest multiple of \<open>1 / 2 ^ k\<close>.
\<close>

lemma fl64_scaled:
  assumes "2 ^ 52 \<le> \<bar>x\<bar> * 2 ^ k" and "\<bar>x\<bar> * 2 ^ k < 2 ^ 53"
  shows "fl64 x = of_int (rne (x * 2 ^ k)) / 2 ^ k"
proof -
  have nz: "x \<noteq> 0"
    using assms(1) by auto
  have p: "(2::real) powr (52 - real k) = 2 ^ 52 / 2 ^ k"
    by (simp add: powr_diff powr_realpow)
  have q: "(2::real) powr (53 - real k) = 2 ^ 53 / 2 ^ k"
    by (simp add: powr_diff powr_realpow)
  have lo: "(2::real) ^ 52 / 2 ^ k \<le> \<bar>x\<bar>"
    using assms(1) by (simp add: pos_divide_le_eq)
  have hi: "\<bar>x\<bar> < (2::real) ^ 53 / 2 ^ k"
    using assms(2) by (simp add: pos_less_divide_eq)
  have e1: "real_of_int (52 - int k) = 52 - real k" by simp
  have e2: "52 - real k + 1 = 53 - real k" by simp
  have "2 powr real_of_int (52 - int k) \<le> \<bar>x\<bar> \<and> \<bar>x\<bar> < 2 powr (real_of_int (52 - int k) + 1)"
    unfolding e1 e2 p q using lo hi by simp
  then have "\<lfloor>log 2 \<bar>x\<bar>\<rfloor> = 52 - int k"
    using nz by (simp add: floor_log_eq_powr_iff)
  moreover have "(2::real) powr (- real k) = 1 / 2 ^ k"
    by (simp add: powr_minus powr_realpow inverse_eq_divide)
  ultimately show ?thesis
    using nz by (simp add: fl64_def Let_def)
qed

lemmas doubles_1502 =
  cq_1502_def sum2_1502_def sum3_1502_def mean_1502_def ulp_1502_def sq_1502_def

lemma fsum3: "fsum [a, b, c] = fl64 (fl64 (fl64 (0 + a) + b) + c)"
  by (simp add: fsum_def)

text \<open>Reading 15.02 gives the double \<open>cq_1502\<close>.\<close>

lemma fl64_read_1502: "fl64 15.02 = cq_1502"
  by (subst fl64_scaled[where k = 49]) (simp_all add: rne_def doubles_1502 Let_def)

text \<open>
  The sum of three: the first two additions are exact; the third lies halfway between
  two doubles and goes to the even one, above.
\<close>

lemma fl64_sum1_1502: "fl64 (0 + cq_1502) = cq_1502"
  by (subst fl64_scaled[where k = 49]) (simp_all add: rne_def doubles_1502 Let_def)

lemma fl64_sum2_1502: "fl64 (cq_1502 + cq_1502) = sum2_1502"
  by (subst fl64_scaled[where k = 48]) (simp_all add: rne_def doubles_1502 Let_def)

lemma fl64_sum3_1502: "fl64 (sum2_1502 + cq_1502) = sum3_1502"
  by (subst fl64_scaled[where k = 47]) (simp_all add: rne_def doubles_1502 Let_def)

lemma sum3_1502_above: "cq_1502 + cq_1502 + cq_1502 < sum3_1502"
  by (simp add: doubles_1502)

lemma fl64_mean_1502: "fl64 (sum3_1502 / 3) = mean_1502"
  by (subst fl64_scaled[where k = 49]) (simp_all add: rne_def doubles_1502 Let_def)

lemma fl64_dev_1502: "fl64 (mean_1502 - cq_1502) = ulp_1502"
  by (subst fl64_scaled[where k = 101]) (simp_all add: rne_def doubles_1502 Let_def)

lemma fl64_dev_neg_1502: "fl64 (cq_1502 - mean_1502) = - ulp_1502"
  by (subst fl64_scaled[where k = 101]) (simp_all add: rne_def doubles_1502 Let_def)

lemma fl64_sq_1502: "fl64 (ulp_1502 * ulp_1502) = sq_1502"
  by (subst fl64_scaled[where k = 150]) (simp_all add: rne_def doubles_1502 Let_def)

lemma fl64_sqsum1_1502: "fl64 (0 + sq_1502) = sq_1502"
  by (subst fl64_scaled[where k = 150]) (simp_all add: rne_def doubles_1502 Let_def)

lemma fl64_sqsum2_1502: "fl64 (sq_1502 + sq_1502) = 2 * sq_1502"
  by (subst fl64_scaled[where k = 149]) (simp_all add: rne_def doubles_1502 Let_def)

lemma fl64_sqsum3_1502: "fl64 (2 * sq_1502 + sq_1502) = 3 * sq_1502"
  by (subst fl64_scaled[where k = 149]) (simp_all add: rne_def doubles_1502 Let_def)

lemma fl64_var_1502: "fl64 sq_1502 = sq_1502"
  by (subst fl64_scaled[where k = 150]) (simp_all add: rne_def doubles_1502 Let_def)

lemma fl64_sqrt_1502: "fl64 (sqrt sq_1502) = ulp_1502"
proof -
  have "sqrt sq_1502 = ulp_1502"
    by (rule real_sqrt_unique) (simp_all add: power2_eq_square doubles_1502)
  moreover have "fl64 ulp_1502 = ulp_1502"
    by (subst fl64_scaled[where k = 101]) (simp_all add: rne_def doubles_1502 Let_def)
  ultimately show ?thesis by simp
qed

lemma fl64_z_1502: "fl64 (- ulp_1502 / ulp_1502) = - 1"
  by (subst fl64_scaled[where k = 52]) (simp_all add: rne_def doubles_1502 Let_def)

lemma fsum_1502: "fsum [cq_1502, cq_1502, cq_1502] = sum3_1502"
  unfolding fsum3 fl64_sum1_1502 fl64_sum2_1502 fl64_sum3_1502 by (rule refl)

lemma mean_f64_1502: "mean_f64 [cq_1502, cq_1502, cq_1502] = Some mean_1502"
  by (simp add: mean_f64_def fsum_1502 fl64_mean_1502)

lemma fsum_sq_1502: "fsum [sq_1502, sq_1502, sq_1502] = 3 * sq_1502"
  unfolding fsum3 fl64_sqsum1_1502 fl64_sqsum2_1502 fl64_sqsum3_1502 by (rule refl)

lemma std0_f64_1502: "std0_f64 [cq_1502, cq_1502, cq_1502] = Some ulp_1502"
proof -
  have "map (\<lambda>v. fl64 (fl64 (mean_1502 - v) * fl64 (mean_1502 - v))) [cq_1502, cq_1502, cq_1502] =
      [sq_1502, sq_1502, sq_1502]"
    unfolding list.map fl64_dev_1502 fl64_sq_1502 by (rule refl)
  then show ?thesis
    by (simp add: std0_f64_def mean_f64_1502 fsum_sq_1502 fl64_var_1502 fl64_sqrt_1502)
qed

lemma zscore_f64_1502:
  "zscore_f64 [cq_1502, cq_1502, cq_1502] (1 / 2) = [True, True, True]"
proof -
  have "map (\<lambda>x. \<bar>fl64 (fl64 (x - mean_1502) / ulp_1502)\<bar> > 1 / 2) [cq_1502, cq_1502, cq_1502] =
      [True, True, True]"
    unfolding list.map fl64_dev_neg_1502 fl64_z_1502 by simp
  moreover have "ulp_1502 \<noteq> 0"
    by (simp add: ulp_1502_def)
  ultimately show ?thesis
    by (simp add: zscore_f64_def mean_f64_1502 std0_f64_1502)
qed

text \<open>
  Claim C5 fails on the code. Three wells with the same quantification value 15.02
  do not have zero spread as the machine computes it: the sum of the three rounds up,
  the mean is the next double above the value, every deviation is one unit in the
  last place, and so is the standard deviation, \<open>1 / 2 ^ 49\<close>. The guard
  \<^verbatim>\<open>sd == 0\<close> does not hold, every z-score is \<open>-1\<close>, and with the threshold \<open>0.5\<close>
  the \<open>zscore\<close> estimator flags all three wells.
\<close>

theorem constant_doubles_flagged:
  "fl64 15.02 = cq_1502 \<and>
   mean_f64 [cq_1502, cq_1502, cq_1502] = Some mean_1502 \<and>
   mean_1502 - cq_1502 = 1 / 2 ^ 49 \<and>
   std0_f64 [cq_1502, cq_1502, cq_1502] = Some (1 / 2 ^ 49) \<and>
   zscore_f64 [cq_1502, cq_1502, cq_1502] 0.5 = [True, True, True]"
proof -
  have d: "mean_1502 - cq_1502 = 1 / 2 ^ 49"
    by (simp add: doubles_1502)
  have s: "std0_f64 [cq_1502, cq_1502, cq_1502] = Some (1 / 2 ^ 49)"
    unfolding std0_f64_1502 ulp_1502_def by (rule refl)
  have z: "zscore_f64 [cq_1502, cq_1502, cq_1502] 0.5 = [True, True, True]"
    using zscore_f64_1502 by simp
  show ?thesis
    using fl64_read_1502 mean_f64_1502 d s z by blast
qed

section \<open>Where each error comes from\<close>

lemma classify_Inl:
  "classify lib cfg t = Inl e \<Longrightarrow>
     (\<exists>ps. e = SchemaError (missing_cols cfg t) ps \<and> sorted_labels (columns t) = Some ps) \<and>
       missing_cols cfg t \<noteq> [] \<or>
     e = TypeError \<and> sorted_labels (columns t) = None \<and> missing_cols cfg t \<noteq> [] \<or>
     e = PatternError \<and> missing_cols cfg t = [] \<or> e = NoControlMatchError \<and> missing_cols cfg t = []"
  by (auto simp: classify_def Let_def split: if_splits option.splits)

lemma filter_outliers_Inl:
  "filter_outliers cfg df = Inl e \<Longrightarrow> e = FrameShapeError"
  by (auto simp: filter_outliers_def split: if_splits)

lemma working_table_Inl:
  "working_table lib cfg t = Inl e \<Longrightarrow> classify lib cfg t = Inl e \<or> e = FrameShapeError"
  by (auto simp: working_table_def split: sum.splits dest: filter_outliers_Inl)

lemma delta_ct_Inl:
  "delta_ct df = Inl e \<Longrightarrow> \<exists>ss. e = MissingReferenceError ss"
  by (auto simp: delta_ct_def Let_def split: if_splits)

lemma delta_delta_ct_Inl:
  "delta_delta_ct dt = Inl e \<Longrightarrow> \<exists>gs. e = MissingControlBaselineError gs"
  by (auto simp: delta_delta_ct_def Let_def split: if_splits)

lemma sample_rows_Inl:
  "sample_rows cfg rows = Inl e \<Longrightarrow> e = EmptyResultError"
  by (auto simp: sample_rows_def Let_def split: if_splits)

lemma compute_tables_Inl:
  assumes "compute_tables lib cfg t = Inl e"
  shows "classify lib cfg t = Inl e \<or> e = FrameShapeError \<or>
         (\<exists>ss. e = MissingReferenceError ss) \<or>
         (\<exists>gs. e = MissingControlBaselineError gs) \<or> e = EmptyResultError"
  using assms
  by (auto simp: compute_tables_def split: sum.splits
      dest: working_table_Inl delta_ct_Inl delta_delta_ct_Inl sample_rows_Inl)

lemma export_Inl:
  "fst (export cfg res fs) = Inl e \<Longrightarrow> e = KeyError ''Well''"
  by (auto simp: export_def Let_def split: option.splits if_splits)

lemma export_Inr:
  "export cfg res fs = (Inr p, fs') \<Longrightarrow> \<exists>wb. fs' = fs(p \<mapsto> wb)"
  by (auto simp: export_def Let_def split: option.splits if_splits)

lemma set_label_names: "set (label_names ls) = {s. Name s \<in> set ls}"
  by (auto simp: label_names_def split: label.splits)

lemma set_label_numbers: "set (label_numbers ls) = {x. Number x \<in> set ls}"
  by (auto simp: label_numbers_def split: label.splits)

lemma sorted_labels_set:
  assumes "sorted_labels ls = Some ps"
  shows "set ps = set ls"
proof -
  have names: "Name ` {s. Name s \<in> set ls} = set ls" if "label_numbers ls = []"
  proof -
    have "\<And>x. Number x \<notin> set ls"
      using that set_label_numbers[of ls] by auto
    then show ?thesis
      by (auto simp: image_iff) (metis label.exhaust)
  qed
  have numbers: "Number ` {x. Number x \<in> set ls} = set ls" if "label_names ls = []"
  proof -
    have "\<And>s. Name s \<notin> set ls"
      using that set_label_names[of ls] by auto
    then show ?thesis
      by (auto simp: image_iff) (metis label.exhaust)
  qed
  show ?thesis
    using assms names numbers
    by (auto simp: sorted_labels_def set_label_names set_label_numbers split: if_splits)
qed

lemma set_missing_cols:
  "set (missing_cols cfg t) = set (required_cols cfg) - {s. Name s \<in> set (columns t)}"
  by (auto simp: missing_cols_def)

lemma missing_cols_empty_iff:
  "missing_cols cfg t = [] \<longleftrightarrow> Name ` set (required_cols cfg) \<subseteq> set (columns t)"
proof -
  have "missing_cols cfg t = [] \<longleftrightarrow> set (missing_cols cfg t) = {}"
    by simp
  then show ?thesis
    unfolding set_missing_cols by auto
qed

text \<open>
  The column check on a table that was read: with a required column missing the run
  ends in \<open>SchemaError\<close>, listing exactly the missing required columns and the
  columns present, when the labels present can be sorted, and in \<open>TypeError\<close> when
  they cannot; with all five present the run does not end in \<open>SchemaError\<close>.
\<close>

lemma schema_check:
  assumes "read_excel fs (excel_path cfg) (sheet_name cfg) = Inr t"
  shows "(\<not> Name ` set (required_cols cfg) \<subseteq> set (columns t) \<longrightarrow>
            (case sorted_labels (columns t) of
               None \<Rightarrow> compute_ddct lib cfg fs = (Inl TypeError, fs)
             | Some ps \<Rightarrow>
                 compute_ddct lib cfg fs = (Inl (SchemaError (missing_cols cfg t) ps), fs) \<and>
                 set (missing_cols cfg t) =
                   set (required_cols cfg) - {s. Name s \<in> set (columns t)} \<and>
                 set ps = set (columns t))) \<and>
         (Name ` set (required_cols cfg) \<subseteq> set (columns t) \<longrightarrow>
            (\<forall>ms ps. fst (compute_ddct lib cfg fs) \<noteq> Inl (SchemaError ms ps)))"
proof (intro conjI impI allI)
  assume miss: "\<not> Name ` set (required_cols cfg) \<subseteq> set (columns t)"
  then have ne: "missing_cols cfg t \<noteq> []"
    by (simp add: missing_cols_empty_iff)
  show "case sorted_labels (columns t) of
               None \<Rightarrow> compute_ddct lib cfg fs = (Inl TypeError, fs)
             | Some ps \<Rightarrow>
                 compute_ddct lib cfg fs = (Inl (SchemaError (missing_cols cfg t) ps), fs) \<and>
                 set (missing_cols cfg t) =
                   set (required_cols cfg) - {s. Name s \<in> set (columns t)} \<and>
                 set ps = set (columns t)"
  proof (cases "sorted_labels (columns t)")
    case None
    then have "classify lib cfg t = Inl TypeError"
      using ne by (simp add: classify_def Let_def)
    then show ?thesis
      using assms None by (simp add: compute_ddct_def compute_tables_def working_table_def)
  next
    case (Some ps)
    then have "classify lib cfg t = Inl (SchemaError (missing_cols cfg t) ps)"
      using ne by (simp add: classify_def Let_def)
    then show ?thesis
      using assms Some sorted_labels_set[OF Some]
      by (simp add: compute_ddct_def compute_tables_def working_table_def set_missing_cols)
  qed
next
  fix ms ps
  assume all: "Name ` set (required_cols cfg) \<subseteq> set (columns t)"
  then have e: "missing_cols cfg t = []"
    by (simp add: missing_cols_empty_iff)
  show "fst (compute_ddct lib cfg fs) \<noteq> Inl (SchemaError ms ps)"
  proof
    assume a: "fst (compute_ddct lib cfg fs) = Inl (SchemaError ms ps)"
    show False
    proof (cases "compute_tables lib cfg t")
      case (Inl e')
      then have "e' = SchemaError ms ps"
        using a assms by (simp add: compute_ddct_def)
      then show False
        using compute_tables_Inl[OF Inl] classify_Inl[of lib cfg t e'] e by auto
    next
      case (Inr res)
      then have "fst (export cfg res fs) = Inl (SchemaError ms ps)"
        using a assms by (auto simp: compute_ddct_def split: prod.splits sum.splits)
      then show False
        by (auto dest: export_Inl)
    qed
  qed
qed

lemma schema_error_run:
  "compute_ddct sample_lib (default_config ''plate.xlsx'' ''^CTR'' ''ACTB'')
      (one_sheet ''plate.xlsx'' \<lparr> columns = [Name ''Well'', Name ''Cq''], body = [] \<rparr>) =
     (Inl (SchemaError [''Sample'', ''Target''] [Name ''Cq'', Name ''Well'']),
      one_sheet ''plate.xlsx'' \<lparr> columns = [Name ''Well'', Name ''Cq''], body = [] \<rparr>)"
  by (simp add: read_excel_def one_sheet_def default_config_def required_cols_def
      compute_ddct_def compute_tables_def working_table_def classify_def missing_cols_def
      sorted_labels_def label_names_def label_numbers_def)

text \<open>
  Claim C6 fails on the code. A sheet read without a header row of its own has its
  first data row as labels: three texts and the number 18. Every required column is
  missing, and while the message is built \<^verbatim>\<open>sorted(df.columns)\<close> compares a text with
  a number: the run ends in \<open>TypeError\<close>, not in \<open>SchemaError\<close>, and names no column.
\<close>

theorem mixed_header_type_error:
  "missing_cols (default_config ''plate.xlsx'' ''^CTR'' ''ACTB'')
      \<lparr> columns = [Name ''A1'', Name ''CTR-1'', Name ''ACTB'', Number 18],
        body = [row_of [(''A1'', Txt ''A2''), (''CTR-1'', Txt ''CTR-1''),
                        (''ACTB'', Txt ''GeneX''), (''18'', Num 22)]] \<rparr> =
     [''Cq'', ''Sample'', ''Target'', ''Well''] \<and>
   compute_ddct sample_lib (default_config ''plate.xlsx'' ''^CTR'' ''ACTB'')
      (one_sheet ''plate.xlsx''
         \<lparr> columns = [Name ''A1'', Name ''CTR-1'', Name ''ACTB'', Number 18],
           body = [row_of [(''A1'', Txt ''A2''), (''CTR-1'', Txt ''CTR-1''),
                           (''ACTB'', Txt ''GeneX''), (''18'', Num 22)]] \<rparr>) =
     (Inl TypeError,
      one_sheet ''plate.xlsx''
         \<lparr> columns = [Name ''A1'', Name ''CTR-1'', Name ''ACTB'', Number 18],
           body = [row_of [(''A1'', Txt ''A2''), (''CTR-1'', Txt ''CTR-1''),
                           (''ACTB'', Txt ''GeneX''), (''18'', Num 22)]] \<rparr>)"
  by (simp add: read_excel_def one_sheet_def default_config_def required_cols_def
      compute_ddct_def compute_tables_def working_table_def classify_def missing_cols_def
      sorted_labels_def label_names_def label_numbers_def)

text \<open>
  Claim C7. A run that ends in one of the five terminal errors leaves the store of
  workbooks as it was; a run that returns has written its output path.
\<close>

theorem errors_write_nothing:
  "(\<forall>e. fst (compute_ddct lib cfg fs) = Inl e \<and> terminal e \<longrightarrow>
        snd (compute_ddct lib cfg fs) = fs) \<and>
   (\<forall>w s p. fst (compute_ddct lib cfg fs) = Inr (w, s, p) \<longrightarrow>
        (\<exists>wb. snd (compute_ddct lib cfg fs) = fs(p \<mapsto> wb)))"
proof (intro conjI allI impI)
  fix e
  assume a: "fst (compute_ddct lib cfg fs) = Inl e \<and> terminal e"
  show "snd (compute_ddct lib cfg fs) = fs"
  proof (cases "read_excel fs (excel_path cfg) (sheet_name cfg)")
    case (Inl e')
    then show ?thesis by (simp add: compute_ddct_def)
  next
    case (Inr t)
    show ?thesis
    proof (cases "compute_tables lib cfg t")
      case (Inl e')
      then show ?thesis using Inr by (simp add: compute_ddct_def)
    next
      case r: (Inr res)
      then have "fst (export cfg res fs) = Inl e"
        using a Inr by (auto simp: compute_ddct_def split: prod.splits sum.splits)
      then have "e = KeyError ''Well''" by (rule export_Inl)
      then show ?thesis using a by (simp add: terminal_def)
    qed
  qed
next
  fix w s p
  assume a: "fst (compute_ddct lib cfg fs) = Inr (w, s, p)"
  then show "\<exists>wb. snd (compute_ddct lib cfg fs) = fs(p \<mapsto> wb)"
    by (auto simp: compute_ddct_def split: prod.splits sum.splits dest: export_Inr)
qed

section \<open>The four-row scenario, stage by stage\<close>

lemma four_classify:
  assumes "re_compile lib True ''^CTR'' = Some control_re"
      "re_compile lib True ''ACTB'' = Some ref_re"
      "control_re ''CTR-1''" "\<not> control_re ''MT-1''" "ref_re ''ACTB''" "\<not> ref_re ''GeneX''"
  shows "classify lib (default_config path ''^CTR'' ''ACTB'') (plate (four_rows w1 w2 w3 w4)) = Inr (four_wrows w1 w2 w3 w4)"
  using assms
  by (simp add: classify_def missing_cols_def required_cols_def default_config_def plate_def plate_row_def four_rows_def
     four_wrows_def numeric_rows_def List.map_filter_simps row_of_def to_numeric_def mk_wrow_def normalise_def stringify_def astype_str_def
     split_group_sample_def upt_rec Let_def)

lemma four_filter:
  "filter_outliers (default_config path ''^CTR'' ''ACTB'') (four_wrows w1 w2 w3 w4) = Inr (four_wrows w1 w2 w3 w4, Some [])"
  by (simp add: filter_outliers_def apply_gives_frame_def is_outlier_def outlier_mask_def groupby_def group_flag_def default_config_def four_wrows_def)

lemma four_dct:
  "delta_ct (four_wrows w1 w2 w3 w4) = Inr (four_dct_rows w1 w2 w3 w4)"
  by (simp add: delta_ct_def ref_mean_of_def ref_per_sample_def groupby_def mean_def four_wrows_def List.map_filter_simps Let_def four_dct_rows_def)

lemma four_baseline:
  "control_baseline (four_dct_rows w1 w2 w3 w4) = [(''ACTB'', Some 0), (''GeneX'', Some 4)]"
  by (simp add: control_baseline_def control_per_sample_def groupby_def mean_def four_dct_rows_def four_wrows_def List.map_filter_simps)

lemma four_ddct:
  "delta_delta_ct (four_dct_rows w1 w2 w3 w4) = Inr (four_ddct_rows w1 w2 w3 w4)"
  unfolding delta_delta_ct_def control_mean_of_def four_baseline
  by (simp add: Let_def four_ddct_rows_def four_dct_rows_def four_wrows_def List.map_filter_simps)

lemma four_well_rows:
  "well_rows (four_ddct_rows w1 w2 w3 w4) = four_well_df w1 w2 w3 w4"
  by (simp add: well_rows_def to_well_out_def four_well_df_def
      four_ddct_rows_def four_dct_rows_def four_wrows_def)

lemma four_sample_rows:
  "sample_rows (default_config path ''^CTR'' ''ACTB'') (four_ddct_rows w1 w2 w3 w4) = Inr four_sample_df"
  by (simp add: sample_rows_def default_config_def groupby_def mean_def four_sample_df_def
      four_ddct_rows_def four_dct_rows_def four_wrows_def)

lemma four_tables:
  assumes "re_compile lib True ''^CTR'' = Some control_re"
      "re_compile lib True ''ACTB'' = Some ref_re"
      "control_re ''CTR-1''" "\<not> control_re ''MT-1''" "ref_re ''ACTB''" "\<not> ref_re ''GeneX''"
  shows "compute_tables lib (default_config path ''^CTR'' ''ACTB'') (plate (four_rows w1 w2 w3 w4)) =
      Inr \<lparr> well_df = four_well_df w1 w2 w3 w4, sample_df = four_sample_df, outliers_df = Some [] \<rparr>"
  by (simp add: compute_tables_def working_table_def four_classify[OF assms] four_filter four_dct
      four_ddct four_well_rows four_sample_rows)

text \<open>
  Claim C1. On the four-row plate with control pattern \<open>^CTR\<close> and reference pattern
  \<open>ACTB\<close> under the default configuration, for any regular-expression library that
  matches the four labels as Python does: \<open>\<Delta>Ct\<close>(CTR-1, GeneX) is 4.0, the control
  baseline of GeneX is 4.0, \<open>\<Delta>\<Delta>Ct\<close>(MT-1, GeneX) is 1.5 and its fold change is
  \<open>2\<close> to the power \<open>-1.5\<close>.
\<close>

theorem four_row_scenario:
  assumes "re_compile lib True ''^CTR'' = Some control_re"
    and "re_compile lib True ''ACTB'' = Some ref_re"
    and "control_re ''CTR-1''" and "\<not> control_re ''MT-1''"
    and "ref_re ''ACTB''" and "\<not> ref_re ''GeneX''"
  shows "\<exists>dt res.
     dct_table lib (default_config path ''^CTR'' ''ACTB'') (plate (four_rows w1 w2 w3 w4)) = Inr dt \<and>
     compute_tables lib (default_config path ''^CTR'' ''ACTB'') (plate (four_rows w1 w2 w3 w4)) = Inr res \<and>
     map dct (filter (\<lambda>r. sample_label (base r) = ''CTR-1'' \<and> gene (base r) = ''GeneX'') dt) = [4.0] \<and>
     map_of (control_baseline dt) ''GeneX'' = Some (Some 4.0) \<and>
     map (\<lambda>w. (w_ddct w, w_fold w))
       (filter (\<lambda>w. w_sample w = ''MT-1'' \<and> w_gene w = ''GeneX'') (well_df res)) =
       [(1.5, 2 powr (- 1.5))] \<and>
     well_df res = four_well_df w1 w2 w3 w4"
proof -
  let ?cfg = "default_config path ''^CTR'' ''ACTB''"
  let ?t = "plate (four_rows w1 w2 w3 w4)"
  have dt: "dct_table lib ?cfg ?t = Inr (four_dct_rows w1 w2 w3 w4)"
    by (simp add: dct_table_def working_table_def four_classify[OF assms] four_filter four_dct)
  have c: "map dct (filter (\<lambda>r. sample_label (base r) = ''CTR-1'' \<and> gene (base r) = ''GeneX'')
              (four_dct_rows w1 w2 w3 w4)) = [4.0]"
    by (simp add: four_dct_rows_def four_wrows_def)
  have b: "map_of (control_baseline (four_dct_rows w1 w2 w3 w4)) ''GeneX'' = Some (Some 4.0)"
    by (simp add: four_baseline)
  have w: "map (\<lambda>w. (w_ddct w, w_fold w))
       (filter (\<lambda>w. w_sample w = ''MT-1'' \<and> w_gene w = ''GeneX'') (four_well_df w1 w2 w3 w4)) =
       [(1.5, 2 powr (- 1.5))]"
    by (simp add: four_well_df_def)
  show ?thesis
    using dt four_tables[OF assms, of path w1 w2 w3 w4] c b w by simp
qed

theorem four_row_scenario_witness:
  "\<exists>dt res.
     dct_table sample_lib (default_config ''plate.xlsx'' ''^CTR'' ''ACTB'')
       (plate (four_rows (Txt ''A1'') (Txt ''A2'') (Txt ''B1'') (Txt ''B2''))) = Inr dt \<and>
     compute_tables sample_lib (default_config ''plate.xlsx'' ''^CTR'' ''ACTB'')
       (plate (four_rows (Txt ''A1'') (Txt ''A2'') (Txt ''B1'') (Txt ''B2''))) = Inr res \<and>
     map dct (filter (\<lambda>r. sample_label (base r) = ''CTR-1'' \<and> gene (base r) = ''GeneX'') dt) = [4.0] \<and>
     map_of (control_baseline dt) ''GeneX'' = Some (Some 4.0) \<and>
     map (\<lambda>w. (w_ddct w, w_fold w))
       (filter (\<lambda>w. w_sample w = ''MT-1'' \<and> w_gene w = ''GeneX'') (well_df res)) =
       [(1.5, 2 powr (- 1.5))] \<and>
     well_df res = four_well_df (Txt ''A1'') (Txt ''A2'') (Txt ''B1'') (Txt ''B2'')"
  using four_row_scenario[where lib = sample_lib
      and control_re = "the (re_compile sample_lib True ''^CTR'')"
      and ref_re = "the (re_compile sample_lib True ''ACTB'')"
      and path = "''plate.xlsx''" and ?w1.0 = "Txt ''A1''" and ?w2.0 = "Txt ''A2''"
      and ?w3.0 = "Txt ''B1''" and ?w4.0 = "Txt ''B2''"]
  by (simp add: sample_lib_def)

section \<open>A failing and a complete run\<close>

lemma default_output_path_plate: "default_output_path ''plate.xlsx'' = ''./plate_ddct.xlsx''"
  by (simp add: default_output_path_def path_split_def splitext_def path_join_def rfind_def rstrip_sep_def Let_def)

theorem errors_write_nothing_witness:
  "fst (compute_ddct sample_lib (default_config ''plate.xlsx'' ''^CTR'' ''ACTB'')
      (one_sheet ''plate.xlsx'' \<lparr> columns = [Name ''Well'', Name ''Cq''], body = [] \<rparr>)) =
     Inl (SchemaError [''Sample'', ''Target''] [Name ''Cq'', Name ''Well'']) \<and>
   terminal (SchemaError [''Sample'', ''Target''] [Name ''Cq'', Name ''Well'']) \<and>
   snd (compute_ddct sample_lib (default_config ''plate.xlsx'' ''^CTR'' ''ACTB'')
      (one_sheet ''plate.xlsx'' \<lparr> columns = [Name ''Well'', Name ''Cq''], body = [] \<rparr>)) =
     one_sheet ''plate.xlsx'' \<lparr> columns = [Name ''Well'', Name ''Cq''], body = [] \<rparr> \<and>
   fst (compute_ddct sample_lib (default_config ''plate.xlsx'' ''^CTR'' ''ACTB'')
      (one_sheet ''plate.xlsx'' (plate (four_rows (Txt ''A1'') (Txt ''A2'') (Txt ''B1'') (Txt ''B2''))))) =
     Inr (four_well_df (Txt ''A1'') (Txt ''A2'') (Txt ''B1'') (Txt ''B2''), four_sample_df,
          ''./plate_ddct.xlsx'') \<and>
   (\<exists>wb. snd (compute_ddct sample_lib (default_config ''plate.xlsx'' ''^CTR'' ''ACTB'')
      (one_sheet ''plate.xlsx'' (plate (four_rows (Txt ''A1'') (Txt ''A2'') (Txt ''B1'') (Txt ''B2''))))) =
     (one_sheet ''plate.xlsx'' (plate (four_rows (Txt ''A1'') (Txt ''A2'') (Txt ''B1'') (Txt ''B2''))))
       (''./plate_ddct.xlsx'' \<mapsto> wb))"
proof -
  let ?cfg = "default_config ''plate.xlsx'' ''^CTR'' ''ACTB''"
  let ?bad = "one_sheet ''plate.xlsx'' \<lparr> columns = [Name ''Well'', Name ''Cq''], body = [] \<rparr>"
  let ?t = "plate (four_rows (Txt ''A1'') (Txt ''A2'') (Txt ''B1'') (Txt ''B2''))"
  let ?good = "one_sheet ''plate.xlsx'' ?t"
  have e: "fst (compute_ddct sample_lib ?cfg ?bad) =
      Inl (SchemaError [''Sample'', ''Target''] [Name ''Cq'', Name ''Well''])"
    by (simp add: read_excel_def one_sheet_def default_config_def required_cols_def
        compute_ddct_def compute_tables_def working_table_def classify_def missing_cols_def
        sorted_labels_def label_names_def label_numbers_def)
  have t: "terminal (SchemaError [''Sample'', ''Target''] [Name ''Cq'', Name ''Well''])"
    by (simp add: terminal_def)
  have tabs: "compute_tables sample_lib ?cfg ?t =
      Inr \<lparr> well_df = four_well_df (Txt ''A1'') (Txt ''A2'') (Txt ''B1'') (Txt ''B2''),
            sample_df = four_sample_df, outliers_df = Some [] \<rparr>"
    by (rule four_tables[where control_re = "the (re_compile sample_lib True ''^CTR'')"
          and ref_re = "the (re_compile sample_lib True ''ACTB'')"])
      (simp_all add: sample_lib_def)
  have rd: "read_excel ?good (excel_path ?cfg) (sheet_name ?cfg) = Inr ?t"
    by (simp add: read_excel_def one_sheet_def default_config_def)
  have ex: "\<exists>fs'. export ?cfg \<lparr> well_df = four_well_df (Txt ''A1'') (Txt ''A2'') (Txt ''B1'') (Txt ''B2''),
            sample_df = four_sample_df, outliers_df = Some [] \<rparr> ?good = (Inr ''./plate_ddct.xlsx'', fs')"
    by (simp add: export_def Let_def default_config_def default_output_path_plate)
  have ok: "fst (compute_ddct sample_lib ?cfg ?good) =
      Inr (four_well_df (Txt ''A1'') (Txt ''A2'') (Txt ''B1'') (Txt ''B2''), four_sample_df,
          ''./plate_ddct.xlsx'')"
    using ex by (auto simp: compute_ddct_def rd tabs)
  show ?thesis
    using errors_write_nothing[of sample_lib ?cfg ?bad] errors_write_nothing[of sample_lib ?cfg ?good]
      e t ok by blast
qed

section \<open>The outlier mask\<close>

lemma groupby_member:
  "(k, g) \<in> set (groupby key xs) \<Longrightarrow> g = filter (\<lambda>x. key x = k) xs \<and> k \<in> key ` set xs"
  by (auto simp: groupby_def)

lemma outlier_mask_member:
  assumes "(i, b) \<in> set (outlier_mask cfg df)"
  shows "\<exists>r \<in> set df. (i, b) \<in> set (zip (map idx (partition_of df r))
                       (group_flag cfg (partition_of df r)))"
  using assms by (auto simp: outlier_mask_def partition_of_def dest!: groupby_member)

lemma is_outlier_member:
  "is_outlier cfg df r \<Longrightarrow> (idx r, True) \<in> set (outlier_mask cfg df)"
  by (auto simp: is_outlier_def split: option.splits if_splits dest: map_of_SomeD)

lemma group_flag_unknown:
  assumes "str_lower (outlier_method cfg) \<notin> {''mad'', ''iqr'', ''zscore''}"
  shows "group_flag cfg g = map (\<lambda>_. False) g"
  using assms by (simp add: group_flag_def flag_outliers_def no_flags_def)

lemma unknown_method_no_outlier:
  assumes "str_lower (outlier_method cfg) \<notin> {''mad'', ''iqr'', ''zscore''}"
  shows "\<not> is_outlier cfg df r"
proof
  assume "is_outlier cfg df r"
  then obtain y where "(idx r, True) \<in> set (zip (map idx (partition_of df y))
                       (group_flag cfg (partition_of df y)))"
    using is_outlier_member outlier_mask_member by blast
  then have "True \<in> set (group_flag cfg (partition_of df y))"
    by (rule set_zip_rightD)
  then show False
    by (simp add: group_flag_unknown[OF assms])
qed





lemma sample_rows_enable:
  "sample_rows (cfg\<lparr>enable_outlier_filter := b\<rparr>) rows = sample_rows cfg rows"
  by (simp add: sample_rows_def)

lemma export_no_outliers:
  "export (cfg\<lparr>enable_outlier_filter := b\<rparr>) (res\<lparr>outliers_df := None\<rparr>) fs =
   export cfg (res\<lparr>outliers_df := Some []\<rparr>) fs"
  by (simp add: export_def Let_def well_sheet_def split: option.splits)

lemma str_lower_MaD: "str_lower ''MaD'' = ''mad''"
  by (simp add: str_lower_def lower_char_def char_of_def bit_iff_odd_drop_bit drop_bit_eq_div)

lemma map_filter_fst_distinct:
  assumes "distinct (map fst ps)" and "\<And>p q. F p = Some q \<Longrightarrow> fst q = fst p"
  shows "distinct (map fst (List.map_filter F ps)) \<and>
         set (map fst (List.map_filter F ps)) \<subseteq> set (map fst ps)"
  using assms(1)
proof (induction ps)
  case Nil
  then show ?case by (simp add: List.map_filter_simps)
next
  case (Cons p ps)
  then show ?case
    using assms(2)[of p] by (cases "F p") (auto simp: List.map_filter_simps)
qed

lemma numeric_rows_distinct: "distinct (map fst (numeric_rows lib cfg t))"
proof -
  have "distinct (map fst (zip [0..<length (body t)] (body t)))"
    by simp
  then show ?thesis
    unfolding numeric_rows_def
    by (intro conjunct1[OF map_filter_fst_distinct]) (auto split: prod.splits)
qed

lemma idx_mk_wrow: "idx (mk_wrow lib cfg c r irx) = fst irx"
  by (simp add: mk_wrow_def Let_def split: prod.splits)

lemma classify_distinct:
  assumes "classify lib cfg t = Inr df"
  shows "distinct (map idx df)"
proof -
  obtain c r where "df = map (mk_wrow lib cfg c r) (numeric_rows lib cfg t)"
    using assms by (auto simp: classify_def Let_def split: if_splits option.splits)
  then have "map idx df = map fst (numeric_rows lib cfg t)"
    by (simp add: idx_mk_wrow)
  then show ?thesis
    by (simp add: numeric_rows_distinct)
qed

lemma partition_of_self: "x \<in> set (partition_of df r) \<Longrightarrow> partition_of df x = partition_of df r"
  by (auto simp: partition_of_def intro: filter_cong)

lemma small_partition_not_outlier:
  assumes d: "distinct (map idx df)" and x: "x \<in> set df"
    and small: "int (length (partition_of df x)) < outlier_min_reps cfg"
  shows "\<not> is_outlier cfg df x"
proof
  assume "is_outlier cfg df x"
  then obtain y where y: "y \<in> set df"
    and z: "(idx x, True) \<in> set (zip (map idx (partition_of df y)) (group_flag cfg (partition_of df y)))"
    using is_outlier_member outlier_mask_member by blast
  from z have "idx x \<in> set (map idx (partition_of df y))"
    by (rule set_zip_leftD)
  then obtain x' where x': "x' \<in> set (partition_of df y)" "idx x' = idx x"
    by auto
  then have "x' \<in> set df"
    by (simp add: partition_of_def)
  then have "x' = x"
    using d x x'(2) by (meson distinct_map inj_onD)
  then have "partition_of df y = partition_of df x"
    using x'(1) partition_of_self by metis
  then have "True \<in> set (group_flag cfg (partition_of df x))"
    using z by (auto dest: set_zip_rightD)
  then show False
    using small by (simp add: group_flag_def)
qed

text \<open>
  When the configured method, lowercased, is none of \<open>mad\<close>, \<open>iqr\<close>, \<open>zscore\<close>, no row
  of any frame is flagged; and on a frame whose flags stack to a series, the filter
  keeps the frame as it is and the audit frame is empty.
\<close>

lemma unknown_method_keeps_frame:
  assumes "str_lower (outlier_method cfg) \<notin> {''mad'', ''iqr'', ''zscore''}"
    and "enable_outlier_filter cfg" and "\<not> (apply_gives_frame df \<and> 2 \<le> length df)"
  shows "filter_outliers cfg df = Inr (df, Some [])"
  using assms(2,3) by (simp add: filter_outliers_def unknown_method_no_outlier[OF assms(1)])

text \<open>
  A plate with a single (Sample, Gene) partition of two wells: the reference gene of
  the one control sample, measured twice.
\<close>

lemma single_pair_classify:
  "classify sample_lib (cfg_of_method m) (plate single_pair_rows) = Inr single_pair_wrows"
  by (simp add: cfg_of_method_def classify_def missing_cols_def required_cols_def default_config_def
      plate_def plate_row_def single_pair_rows_def single_pair_wrows_def numeric_rows_def
      List.map_filter_simps row_of_def to_numeric_def mk_wrow_def normalise_def stringify_def
      astype_str_def split_group_sample_def upt_rec Let_def sample_lib_def)


lemma single_pair_frame: "apply_gives_frame single_pair_wrows \<and> 2 \<le> length single_pair_wrows"
  by (simp add: apply_gives_frame_def groupby_def single_pair_wrows_def)

lemma single_pair_filter: "filter_outliers (cfg_of_method m) single_pair_wrows = Inl FrameShapeError"
  using single_pair_frame by (simp add: filter_outliers_def cfg_of_method_def default_config_def)

lemma single_pair_tables:
  "compute_tables sample_lib (cfg_of_method m) (plate single_pair_rows) = Inl FrameShapeError"
  by (simp add: compute_tables_def working_table_def single_pair_classify single_pair_filter)

lemma single_pair_read:
  "read_excel (one_sheet ''plate.xlsx'' t) (excel_path (cfg_of_method m)) (sheet_name (cfg_of_method m)) = Inr t"
  "read_excel (one_sheet ''plate.xlsx'' t)
      (excel_path ((cfg_of_method m)\<lparr>enable_outlier_filter := False\<rparr>))
      (sheet_name ((cfg_of_method m)\<lparr>enable_outlier_filter := False\<rparr>)) = Inr t"
  by (simp_all add: read_excel_def one_sheet_def cfg_of_method_def default_config_def)







text \<open>
  In the classified frame, a (Sample, Gene) partition with fewer rows than
  \<open>outlier_min_reps\<close> has no flagged row; when the filter step returns, the partition
  reaches the working frame row for row and leaves nothing in the audit frame, for
  every method, threshold and value.
\<close>

lemma small_partitions_kept:
  assumes "classify lib cfg t = Inr df" and "r \<in> set df"
    and "int (length (partition_of df r)) < outlier_min_reps cfg"
    and "working_table lib cfg t = Inr (kept, os)"
  shows "(\<forall>x \<in> set (partition_of df r). \<not> is_outlier cfg df x) \<and>
           partition_of kept r = partition_of df r \<and>
           (\<forall>gone. os = Some gone \<longrightarrow> partition_of gone r = [])"
proof -
  have d: "distinct (map idx df)"
    using assms(1) by (rule classify_distinct)
  have no: "\<not> is_outlier cfg df x" if "x \<in> set (partition_of df r)" for x
  proof -
    have "x \<in> set df" using that by (simp add: partition_of_def)
    moreover have "partition_of df x = partition_of df r"
      using that by (rule partition_of_self)
    ultimately show ?thesis
      using small_partition_not_outlier[OF d, of x cfg] assms(3) by simp
  qed
  have keep: "partition_of (filter (\<lambda>x. \<not> is_outlier cfg df x) df) r = partition_of df r"
    unfolding partition_of_def filter_filter
    by (rule filter_cong) (use no in \<open>auto simp: partition_of_def\<close>)
  have drop: "partition_of (filter (is_outlier cfg df) df) r = []"
    unfolding partition_of_def filter_filter
    using no by (auto simp: partition_of_def filter_empty_conv)
  have w: "filter_outliers cfg df = Inr (kept, os)"
    using assms(1,4) by (simp add: working_table_def)
  then show ?thesis
    using no keep drop by (auto simp: filter_outliers_def split: if_splits)
qed

lemma lone_pair_classify:
  "classify sample_lib (default_config ''plate.xlsx'' ''^CTR'' ''ACTB'') (plate lone_pair_rows) =
     Inr lone_pair_wrows"
  by (simp add: classify_def missing_cols_def required_cols_def default_config_def plate_def
      plate_row_def lone_pair_rows_def lone_pair_wrows_def numeric_rows_def List.map_filter_simps
      row_of_def to_numeric_def mk_wrow_def normalise_def stringify_def astype_str_def
      split_group_sample_def upt_rec Let_def sample_lib_def)

lemma lone_pair_kept:
  "\<exists>kept os.
     working_table sample_lib (default_config ''plate.xlsx'' ''^CTR'' ''ACTB'') (plate lone_pair_rows) =
       Inr (kept, os) \<and>
     map cq (partition_of lone_pair_wrows (lone_pair_wrows ! 1)) = [22, 95] \<and>
     partition_of kept (lone_pair_wrows ! 1) = partition_of lone_pair_wrows (lone_pair_wrows ! 1)"
proof -
  have r: "lone_pair_wrows ! 1 \<in> set lone_pair_wrows"
    by (simp add: lone_pair_wrows_def)
  have p: "map cq (partition_of lone_pair_wrows (lone_pair_wrows ! 1)) = [22, 95]"
    by (simp add: lone_pair_wrows_def partition_of_def)
  have "length (map cq (partition_of lone_pair_wrows (lone_pair_wrows ! 1))) = 2"
    unfolding p by simp
  then have s: "int (length (partition_of lone_pair_wrows (lone_pair_wrows ! 1)))
      < outlier_min_reps (default_config ''plate.xlsx'' ''^CTR'' ''ACTB'')"
    by (simp add: default_config_def)
  have f: "\<not> apply_gives_frame lone_pair_wrows"
    by (simp add: apply_gives_frame_def groupby_def lone_pair_wrows_def)
  then have "\<exists>kept os. working_table sample_lib (default_config ''plate.xlsx'' ''^CTR'' ''ACTB'')
       (plate lone_pair_rows) = Inr (kept, os)"
    by (simp add: working_table_def lone_pair_classify filter_outliers_def)
  then obtain kept os where
    w: "working_table sample_lib (default_config ''plate.xlsx'' ''^CTR'' ''ACTB'') (plate lone_pair_rows) =
       Inr (kept, os)"
    by blast
  from small_partitions_kept[OF lone_pair_classify r s w] p w show ?thesis
    by auto
qed

text \<open>
  Claim C4 fails on the code. The two wells of the single-partition plate are fewer
  than the default \<open>outlier_min_reps\<close> of 3, so the partition is to be left as it is;
  but the flags of a frame with a single partition come back from
  \<^verbatim>\<open>groupby(...).apply\<close> as a frame, one column per row, and the assignment to
  \<^verbatim>\<open>_Outlier\<close> raises: no working frame is produced and the run ends in an error
  with nothing written.
\<close>

theorem small_single_partition_raises:
  "classify sample_lib (cfg_of_method ''mad'') (plate single_pair_rows) = Inr single_pair_wrows \<and>
   map cq (partition_of single_pair_wrows (single_pair_wrows ! 0)) = [20, 21] \<and>
   outlier_min_reps (cfg_of_method ''mad'') = 3 \<and>
   cfg_of_method ''mad'' = default_config ''plate.xlsx'' ''^CTR'' ''ACTB'' \<and>
   working_table sample_lib (cfg_of_method ''mad'') (plate single_pair_rows) = Inl FrameShapeError \<and>
   compute_ddct sample_lib (cfg_of_method ''mad'') (one_sheet ''plate.xlsx'' (plate single_pair_rows)) =
     (Inl FrameShapeError, one_sheet ''plate.xlsx'' (plate single_pair_rows))"
proof -
  have p: "map cq (partition_of single_pair_wrows (single_pair_wrows ! 0)) = [20, 21]"
    by (simp add: single_pair_wrows_def partition_of_def)
  have c: "cfg_of_method ''mad'' = default_config ''plate.xlsx'' ''^CTR'' ''ACTB''"
    by (simp add: cfg_of_method_def default_config_def)
  have m: "outlier_min_reps (cfg_of_method ''mad'') = 3"
    by (simp add: cfg_of_method_def default_config_def)
  have w: "working_table sample_lib (cfg_of_method ''mad'') (plate single_pair_rows) = Inl FrameShapeError"
    by (simp add: working_table_def single_pair_classify single_pair_filter)
  have r: "compute_ddct sample_lib (cfg_of_method ''mad'') (one_sheet ''plate.xlsx'' (plate single_pair_rows)) =
     (Inl FrameShapeError, one_sheet ''plate.xlsx'' (plate single_pair_rows))"
    by (simp add: compute_ddct_def single_pair_read single_pair_tables)
  show ?thesis
    using single_pair_classify[of "''mad''"] p c m w r by simp
qed

section \<open>The reference check\<close>

lemma cfg_ok_default: "cfg_ok (default_config path control_regex ref_regex)"
  by (simp add: cfg_ok_def default_config_def required_cols_def derived_cols_def)

lemma map_of_keyed:
  "map_of (map (\<lambda>k. (k, f k)) ks) k = (if k \<in> set ks then Some (f k) else None)"
  by (induction ks) auto

lemma map_of_groupby:
  "map_of (map (\<lambda>(k, g). (k, F g)) (groupby key xs)) k =
     (if k \<in> key ` set xs then Some (F (filter (\<lambda>x. key x = k) xs)) else None)"
proof -
  have "map (\<lambda>(k, g). (k, F g)) (groupby key xs) =
        map (\<lambda>k. (k, F (filter (\<lambda>x. key x = k) xs))) (sort (remdups (map key xs)))"
    by (simp add: groupby_def)
  then show ?thesis
    by (simp add: map_of_keyed)
qed

lemma mean_eq_None: "mean xs = None \<longleftrightarrow> xs = []"
  by (simp add: mean_def)

lemma ref_mean_of_None:
  "ref_mean_of df r = None \<longleftrightarrow> lacks_reference df r"
proof (cases "sample_label r \<in> sample_label ` set (filter is_ref df)")
  case True
  then obtain x where x: "x \<in> set df" "is_ref x" "sample_label x = sample_label r"
    by auto
  then have ne: "filter (\<lambda>y. sample_label y = sample_label r) (filter is_ref df) \<noteq> []"
    by (auto simp: filter_empty_conv)
  then obtain m where "mean (map cq (filter (\<lambda>y. sample_label y = sample_label r) (filter is_ref df))) = Some m"
    by (cases "mean (map cq (filter (\<lambda>y. sample_label y = sample_label r) (filter is_ref df)))")
      (auto simp: mean_eq_None)
  then have "ref_mean_of df r = Some m"
    using True by (simp add: ref_mean_of_def ref_per_sample_def map_of_groupby del: set_filter)
  moreover have "\<not> lacks_reference df r"
    using x by (auto simp: lacks_reference_def list_ex_iff)
  ultimately show ?thesis by simp
next
  case False
  then have "ref_mean_of df r = None"
    by (simp add: ref_mean_of_def ref_per_sample_def map_of_groupby del: set_filter)
  moreover have "lacks_reference df r"
    unfolding lacks_reference_def list_ex_iff
  proof
    assume "\<exists>x\<in>set df. is_ref x \<and> sample_label x = sample_label r"
    then obtain x where "x \<in> set (filter is_ref df)" "sample_label x = sample_label r"
      by auto
    then have "sample_label r \<in> sample_label ` set (filter is_ref df)"
      by (metis imageI)
    then show False
      using False by simp
  qed
  ultimately show ?thesis by simp
qed

lemma delta_ct_cases:
  "delta_ct df =
     (if list_ex (lacks_reference df) df
      then Inl (MissingReferenceError (sort (remdups (map sample_label (filter (lacks_reference df) df)))))
      else Inr (List.map_filter
               (\<lambda>r. map_option (\<lambda>m. \<lparr> base = r, ref_mean_cq = m, dct = cq r - m \<rparr>)
                      (ref_mean_of df r))
               df))"
  by (auto simp: delta_ct_def Let_def ref_mean_of_None filter_empty_conv list_ex_iff)

text \<open>
  Claim C3. Under a configuration of the kind \<open>cfg_ok\<close>,
  a run ends in \<open>MissingReferenceError\<close> exactly when the working frame
  exists (columns present, patterns compiled, a control row matched; quantification
  values coerced, outliers removed) and some row of it has no reference-gene row with
  its sample label; the error then lists exactly the sample labels of those rows,
  sorted and without repetition.
\<close>

theorem missing_reference_iff:
  assumes "cfg_ok cfg"
  shows "((\<exists>ss. compute_tables lib cfg t = Inl (MissingReferenceError ss)) \<longleftrightarrow>
      (\<exists>df os. working_table lib cfg t = Inr (df, os) \<and> list_ex (lacks_reference df) df)) \<and>
   (\<forall>df os ss. working_table lib cfg t = Inr (df, os) \<and>
        compute_tables lib cfg t = Inl (MissingReferenceError ss) \<longrightarrow>
        set ss = sample_label ` {r \<in> set df. lacks_reference df r} \<and> sorted ss \<and> distinct ss)"
proof (cases "working_table lib cfg t")
  case (Inl e)
  then have c: "classify lib cfg t = Inl e \<or> e = FrameShapeError"
    by (rule working_table_Inl)
  have "compute_tables lib cfg t = Inl e"
    using Inl by (simp add: compute_tables_def)
  moreover have "e \<noteq> MissingReferenceError ss" for ss
    using c classify_Inl[of lib cfg t e] by auto
  ultimately show ?thesis
    using Inl by simp
next
  case (Inr w)
  obtain df os where w: "w = (df, os)" by (cases w)
  show ?thesis
  proof (cases "list_ex (lacks_reference df) df")
    case True
    then have "compute_tables lib cfg t =
        Inl (MissingReferenceError (sort (remdups (map sample_label (filter (lacks_reference df) df)))))"
      using Inr w by (simp add: compute_tables_def delta_ct_cases)
    then show ?thesis
      using Inr w True by auto
  next
    case False
    then obtain dt where dt: "delta_ct df = Inr dt"
      by (simp add: delta_ct_cases)
    have "compute_tables lib cfg t \<noteq> Inl (MissingReferenceError ss)" for ss
      using Inr w dt
      by (auto simp: compute_tables_def split: sum.splits
          dest: delta_delta_ct_Inl sample_rows_Inl)
    then show ?thesis
      using Inr w False by auto
  qed
qed

lemma no_reference_run:
  "compute_tables sample_lib (default_config ''plate.xlsx'' ''^CTR'' ''ACTB'') (plate no_reference_rows) =
     Inl (MissingReferenceError [''CTR-1''])"
proof -
  have c: "classify sample_lib (default_config ''plate.xlsx'' ''^CTR'' ''ACTB'') (plate no_reference_rows) =
     Inr no_reference_wrows"
    by (simp add: classify_def missing_cols_def required_cols_def default_config_def plate_def
      plate_row_def no_reference_rows_def numeric_rows_def List.map_filter_simps
      row_of_def to_numeric_def mk_wrow_def normalise_def stringify_def astype_str_def
      split_group_sample_def upt_rec Let_def sample_lib_def no_reference_wrows_def)
  have f: "filter_outliers (default_config ''plate.xlsx'' ''^CTR'' ''ACTB'') no_reference_wrows =
      Inr (no_reference_wrows, Some [])"
    by (simp add: filter_outliers_def apply_gives_frame_def is_outlier_def outlier_mask_def
        groupby_def group_flag_def default_config_def no_reference_wrows_def)
  have d: "delta_ct no_reference_wrows = Inl (MissingReferenceError [''CTR-1''])"
    by (simp add: delta_ct_def ref_mean_of_def ref_per_sample_def groupby_def mean_def Let_def
        no_reference_wrows_def)
  show ?thesis
    by (simp add: compute_tables_def working_table_def c f d)
qed

theorem missing_reference_iff_witness:
  "compute_tables sample_lib (default_config ''plate.xlsx'' ''^CTR'' ''ACTB'') (plate no_reference_rows) =
     Inl (MissingReferenceError [''CTR-1'']) \<and>
   (\<exists>df os. working_table sample_lib (default_config ''plate.xlsx'' ''^CTR'' ''ACTB'')
        (plate no_reference_rows) = Inr (df, os) \<and>
      list_ex (lacks_reference df) df \<and>
      set [''CTR-1''] = sample_label ` {r \<in> set df. lacks_reference df r})"
  using missing_reference_iff[OF cfg_ok_default[of "''plate.xlsx''" "''^CTR''" "''ACTB''"],
      where lib = sample_lib and t = "plate no_reference_rows"] no_reference_run
  by (auto simp del: set_simps)

section \<open>The control check and the filter\<close>

lemma normalise_cq:
  "cfg_ok cfg \<Longrightarrow> normalise lib cfg r x (cq_col cfg) = Num x"
  by (auto simp: cfg_ok_def normalise_def stringify_def)

lemma astype_str_idem: "astype_str lib (Txt (astype_str lib c)) = astype_str lib c"
  by (simp add: astype_str_def)

lemma normalise_control_text:
  "cfg_ok cfg \<Longrightarrow>
     astype_str lib (normalise lib cfg r x (control_search_col cfg)) =
     astype_str lib (r (control_search_col cfg))"
  by (auto simp: cfg_ok_def normalise_def stringify_def astype_str_idem)

lemma in_set_map_filter:
  "y \<in> set (List.map_filter f xs) \<longleftrightarrow> (\<exists>x \<in> set xs. f x = Some y)"
  by (induction xs) (auto split: option.splits)

lemma numeric_rows_member:
  assumes "r \<in> set (body t)" and "to_numeric lib (r (cq_col cfg)) = Some x"
  shows "\<exists>i. (i, r, x) \<in> set (numeric_rows lib cfg t)"
proof -
  obtain i where i: "i < length (body t)" "body t ! i = r"
    using assms(1) by (auto simp: in_set_conv_nth)
  then have "(i, r) \<in> set (zip [0..<length (body t)] (body t))"
    by (auto simp: in_set_zip intro!: exI[of _ i])
  then have "(i, r, x) \<in> set (numeric_rows lib cfg t)"
    using assms(2) unfolding numeric_rows_def in_set_map_filter by force
  then show ?thesis ..
qed

lemma matching_row_passes_control_check:
  assumes ok: "cfg_ok cfg"
    and re: "re_compile lib (assume_case_insensitive_regex cfg) (control_group_regex cfg) = Some control_re"
    and r: "r \<in> set (body t)" and x: "to_numeric lib (r (cq_col cfg)) = Some x"
    and m: "control_re (astype_str lib (r (control_search_col cfg)))"
  shows "classify lib cfg t \<noteq> Inl NoControlMatchError"
proof
  assume a: "classify lib cfg t = Inl NoControlMatchError"
  obtain i where i: "(i, r, x) \<in> set (numeric_rows lib cfg t)"
    using numeric_rows_member[OF r x] ..
  from a re obtain ref_re where
    n: "\<not> list_ex is_control (map (mk_wrow lib cfg control_re ref_re) (numeric_rows lib cfg t))"
    by (auto simp: classify_def Let_def split: if_splits option.splits)
  have "is_control (mk_wrow lib cfg control_re ref_re (i, r, x))"
    using m by (simp add: mk_wrow_def Let_def normalise_control_text[OF ok])
  then show False
    using n i by (auto simp: list_ex_iff)
qed

lemma map_filter_all_some:
  "\<forall>r \<in> set xs. g r \<noteq> None \<Longrightarrow> map f (List.map_filter (\<lambda>r. map_option (h r) (g r)) xs) = xs"
  if "\<And>r m. f (h r m) = r"
  using that by (induction xs) (auto simp: List.map_filter_simps)

lemma delta_ct_base:
  assumes "delta_ct df = Inr dt"
  shows "map base dt = df"
proof -
  have all: "\<forall>r \<in> set df. ref_mean_of df r \<noteq> None"
    using assms by (auto simp: delta_ct_def Let_def filter_empty_conv split: if_splits)
  have "dt = List.map_filter
               (\<lambda>r. map_option (\<lambda>m. \<lparr> base = r, ref_mean_cq = m, dct = cq r - m \<rparr>)
                      (ref_mean_of df r)) df"
    using assms by (auto simp: delta_ct_def Let_def split: if_splits)
  then show ?thesis
    using map_filter_all_some[of base "\<lambda>r m. \<lparr> base = r, ref_mean_cq = m, dct = cq r - m \<rparr>"
        df "ref_mean_of df", OF _ all] by simp
qed

lemma no_control_no_baseline:
  assumes "\<not> list_ex (\<lambda>r. is_control (base r)) dt"
  shows "control_baseline dt = []"
proof -
  have "filter (\<lambda>r. is_control (base r)) dt = []"
    using assms by (auto simp: list_ex_iff filter_empty_conv)
  then show ?thesis
    by (simp add: control_baseline_def control_per_sample_def groupby_def)
qed

lemma delta_delta_ct_no_control:
  assumes "\<not> list_ex (\<lambda>r. is_control (base r)) dt"
  shows "delta_delta_ct dt =
     (if dt = [] then Inr []
      else Inl (MissingControlBaselineError (sort (remdups (map (\<lambda>r. gene (base r)) dt)))))"
  by (simp add: delta_delta_ct_def control_mean_of_def no_control_no_baseline[OF assms] Let_def
      List.map_filter_simps)

lemma all_controls_removed:
  assumes w: "working_table lib cfg t = Inr (kept, os)" and n: "\<not> list_ex is_control kept"
  shows "(\<exists>ss. compute_tables lib cfg t = Inl (MissingReferenceError ss)) \<or>
         (\<exists>gs. compute_tables lib cfg t = Inl (MissingControlBaselineError gs)) \<or>
         compute_tables lib cfg t = Inl EmptyResultError"
proof (cases "delta_ct kept")
  case (Inl e)
  then show ?thesis
    using w by (auto simp: compute_tables_def dest: delta_ct_Inl)
next
  case (Inr dt)
  then have "map base dt = kept"
    by (rule delta_ct_base)
  then have "\<not> list_ex (\<lambda>r. is_control (base r)) dt"
    using n by (auto simp: list_ex_iff)
  then have dd: "delta_delta_ct dt =
     (if dt = [] then Inr []
      else Inl (MissingControlBaselineError (sort (remdups (map (\<lambda>r. gene (base r)) dt)))))"
    by (rule delta_delta_ct_no_control)
  show ?thesis
  proof (cases "dt = []")
    case True
    then show ?thesis
      using w Inr dd by (simp add: compute_tables_def sample_rows_def)
  next
    case False
    then show ?thesis
      using w Inr dd by (simp add: compute_tables_def)
  qed
qed

lemma split_control_classify:
  "classify sample_lib tight_config (plate split_control_rows) = Inr split_control_wrows"
  by (simp add: classify_def missing_cols_def required_cols_def default_config_def plate_def
      plate_row_def split_control_rows_def numeric_rows_def List.map_filter_simps
      row_of_def to_numeric_def mk_wrow_def normalise_def stringify_def astype_str_def
      split_group_sample_def upt_rec Let_def sample_lib_def split_control_wrows_def
      control_wrow_def treated_wrow_def tight_config_def)

lemma split_control_flags:
  "flag_outliers [20, 20, 22, 22] ''mad'' (1 / 2) = [True, True, True, True]"
  by (simp add: flag_outliers_def median_def Let_def)

lemma split_control_mask:
  "outlier_mask tight_config split_control_wrows =
     [(0, True), (1, True), (2, True), (3, True), (4, False)]"
  by (simp add: outlier_mask_def groupby_def group_flag_def split_control_wrows_def
      control_wrow_def treated_wrow_def tight_config_def default_config_def
      str_lower_def lower_char_def split_control_flags)

lemma split_control_series: "\<not> apply_gives_frame split_control_wrows"
  by (simp add: apply_gives_frame_def groupby_def split_control_wrows_def control_wrow_def
      treated_wrow_def)

lemma split_control_filter:
  "filter_outliers tight_config split_control_wrows =
     Inr ([treated_wrow], Some [control_wrow 0 ''A1'' 20, control_wrow 1 ''A2'' 20,
        control_wrow 2 ''A3'' 22, control_wrow 3 ''A4'' 22])"
  unfolding filter_outliers_def is_outlier_def split_control_mask
  by (simp add: split_control_series)
    (simp add: split_control_wrows_def control_wrow_def treated_wrow_def tight_config_def
      default_config_def)

lemma split_control_run:
  "compute_tables sample_lib tight_config (plate split_control_rows) =
     Inl (MissingReferenceError [''MT-1''])"
proof -
  have d: "delta_ct [treated_wrow] = Inl (MissingReferenceError [''MT-1''])"
    by (simp add: delta_ct_def ref_mean_of_def ref_per_sample_def groupby_def mean_def Let_def
        treated_wrow_def)
  show ?thesis
    by (simp add: compute_tables_def working_table_def split_control_classify
        split_control_filter d)
qed

text \<open>
  Claim C10, as amended. The control check looks at the frame before the outlier
  filter: when a row with a numeric quantification value matches the control pattern,
  the run never ends in \<open>NoControlMatchError\<close>. When the filter then removes every
  control row, the run ends in \<open>MissingReferenceError\<close>,
  \<open>MissingControlBaselineError\<close> or \<open>EmptyResultError\<close>; it does not return.
\<close>

theorem control_check_precedes_filter:
  assumes "cfg_ok cfg"
    and "re_compile lib (assume_case_insensitive_regex cfg) (control_group_regex cfg) = Some control_re"
    and "r \<in> set (body t)" and "to_numeric lib (r (cq_col cfg)) = Some x"
    and "control_re (astype_str lib (r (control_search_col cfg)))"
  shows "compute_tables lib cfg t \<noteq> Inl NoControlMatchError \<and>
         (\<forall>kept os. working_table lib cfg t = Inr (kept, os) \<and> \<not> list_ex is_control kept \<longrightarrow>
            (\<exists>ss. compute_tables lib cfg t = Inl (MissingReferenceError ss)) \<or>
            (\<exists>gs. compute_tables lib cfg t = Inl (MissingControlBaselineError gs)) \<or>
            compute_tables lib cfg t = Inl EmptyResultError)"
proof (intro conjI allI impI)
  show "compute_tables lib cfg t \<noteq> Inl NoControlMatchError"
  proof
    assume "compute_tables lib cfg t = Inl NoControlMatchError"
    then have "classify lib cfg t = Inl NoControlMatchError"
      using compute_tables_Inl by blast
    then show False
      using matching_row_passes_control_check[OF assms] by simp
  qed
next
  fix kept os
  assume "working_table lib cfg t = Inr (kept, os) \<and> \<not> list_ex is_control kept"
  then show "(\<exists>ss. compute_tables lib cfg t = Inl (MissingReferenceError ss)) \<or>
            (\<exists>gs. compute_tables lib cfg t = Inl (MissingControlBaselineError gs)) \<or>
            compute_tables lib cfg t = Inl EmptyResultError"
    using all_controls_removed by blast
qed

theorem control_check_precedes_filter_witness:
  "compute_tables sample_lib tight_config (plate split_control_rows) \<noteq> Inl NoControlMatchError \<and>
   working_table sample_lib tight_config (plate split_control_rows) =
     Inr ([treated_wrow], Some [control_wrow 0 ''A1'' 20, control_wrow 1 ''A2'' 20,
        control_wrow 2 ''A3'' 22, control_wrow 3 ''A4'' 22]) \<and>
   ((\<exists>ss. compute_tables sample_lib tight_config (plate split_control_rows) =
        Inl (MissingReferenceError ss)) \<or>
    (\<exists>gs. compute_tables sample_lib tight_config (plate split_control_rows) =
        Inl (MissingControlBaselineError gs)) \<or>
    compute_tables sample_lib tight_config (plate split_control_rows) = Inl EmptyResultError)"
proof -
  have ok: "cfg_ok tight_config"
    by (simp add: cfg_ok_def tight_config_def default_config_def required_cols_def derived_cols_def)
  have re: "re_compile sample_lib (assume_case_insensitive_regex tight_config)
      (control_group_regex tight_config) = Some (the (re_compile sample_lib True ''^CTR''))"
    by (simp add: tight_config_def default_config_def sample_lib_def)
  have r: "plate_row (Txt ''A1'') ''CTR-1'' ''ACTB'' (Num 20.0) \<in> set (body (plate split_control_rows))"
    by (simp add: plate_def split_control_rows_def)
  have x: "to_numeric sample_lib
      (plate_row (Txt ''A1'') ''CTR-1'' ''ACTB'' (Num 20.0) (cq_col tight_config)) = Some 20"
    by (simp add: to_numeric_def plate_row_def row_of_def tight_config_def default_config_def)
  have m: "the (re_compile sample_lib True ''^CTR'')
      (astype_str sample_lib
         (plate_row (Txt ''A1'') ''CTR-1'' ''ACTB'' (Num 20.0) (control_search_col tight_config)))"
    by (simp add: sample_lib_def astype_str_def plate_row_def row_of_def tight_config_def
        default_config_def)
  have w: "working_table sample_lib tight_config (plate split_control_rows) =
     Inr ([treated_wrow], Some [control_wrow 0 ''A1'' 20, control_wrow 1 ''A2'' 20,
        control_wrow 2 ''A3'' 22, control_wrow 3 ''A4'' 22])"
    by (simp add: working_table_def split_control_classify split_control_filter)
  have n: "\<not> list_ex is_control [treated_wrow]"
    by (simp add: treated_wrow_def)
  from control_check_precedes_filter[OF ok re r x m] w n show ?thesis
    by blast
qed

text \<open>
  The claim as written says such runs raise \<open>MissingControlBaselineError\<close> or
  succeed. On this plate every control row is removed and the run ends in
  \<open>MissingReferenceError\<close>.
\<close>

theorem all_controls_removed_counterexample:
  "classify sample_lib tight_config (plate split_control_rows) = Inr split_control_wrows \<and>
   list_ex is_control split_control_wrows \<and>
   filter_outliers tight_config split_control_wrows =
     Inr ([treated_wrow], Some [control_wrow 0 ''A1'' 20, control_wrow 1 ''A2'' 20,
        control_wrow 2 ''A3'' 22, control_wrow 3 ''A4'' 22]) \<and>
   \<not> list_ex is_control [treated_wrow] \<and>
   compute_tables sample_lib tight_config (plate split_control_rows) =
     Inl (MissingReferenceError [''MT-1''])"
  by (simp add: split_control_classify split_control_run split_control_filter)
    (simp add: split_control_wrows_def control_wrow_def treated_wrow_def)

section \<open>The default output path\<close>




















section \<open>The control baseline is a mean of per-sample means\<close>

lemma control_per_sample_keyed:
  "control_per_sample dt =
     map (\<lambda>k. (k, mean (map dct (control_rows_of dt (fst k) (snd k)))))
       (sort (remdups (map (\<lambda>r. (sample_label (base r), gene (base r)))
          (filter (\<lambda>r. is_control (base r)) dt))))"
proof -
  have "filter (\<lambda>r. (sample_label (base r), gene (base r)) = k) (filter (\<lambda>r. is_control (base r)) dt) =
        control_rows_of dt (fst k) (snd k)" for k
    by (cases k) (auto simp: control_rows_of_def intro: filter_cong)
  then show ?thesis
    by (simp add: control_per_sample_def groupby_def)
qed

lemma control_rows_nonempty:
  assumes "k \<in> set (map (\<lambda>r. (sample_label (base r), gene (base r)))
          (filter (\<lambda>r. is_control (base r)) dt))"
  shows "control_rows_of dt (fst k) (snd k) \<noteq> []"
  using assms by (auto simp: control_rows_of_def filter_empty_conv)

lemma mean_nonempty: "xs \<noteq> [] \<Longrightarrow> mean (map f xs) = Some (sum_list (map f xs) / real (length xs))"
  by (simp add: mean_def)

lemma map_filter_snd_keyed:
  "List.map_filter snd (map (\<lambda>k. (k, Some (f k))) ks) = map f ks"
  by (induction ks) auto

lemma baseline_group:
  "List.map_filter snd (filter (\<lambda>item. snd (fst item) = g) (control_per_sample dt)) =
     map (\<lambda>k. sample_gene_mean dt (fst k) (snd k))
       (filter (\<lambda>k. snd k = g)
          (sort (remdups (map (\<lambda>r. (sample_label (base r), gene (base r)))
             (filter (\<lambda>r. is_control (base r)) dt)))))"
  (is "?lhs = map ?m (filter ?P ?keys)")
proof -
  have "filter (\<lambda>item. snd (fst item) = g) (control_per_sample dt) =
        map (\<lambda>k. (k, mean (map dct (control_rows_of dt (fst k) (snd k))))) (filter ?P ?keys)"
    by (simp add: control_per_sample_keyed filter_map comp_def)
  also have "\<dots> = map (\<lambda>k. (k, Some (?m k))) (filter ?P ?keys)"
  proof (rule map_cong[OF refl])
    fix k assume "k \<in> set (filter ?P ?keys)"
    then have "control_rows_of dt (fst k) (snd k) \<noteq> []"
      using control_rows_nonempty[of k dt] by simp
    then show "(k, mean (map dct (control_rows_of dt (fst k) (snd k)))) = (k, Some (?m k))"
      by (simp add: mean_nonempty sample_gene_mean_def)
  qed
  finally show ?thesis
    by (simp add: map_filter_snd_keyed)
qed

lemma keys_of_gene:
  fixes dt g
  defines "ks \<equiv> filter (\<lambda>k. snd k = g)
          (sort (remdups (map (\<lambda>r. (sample_label (base r), gene (base r)))
             (filter (\<lambda>r. is_control (base r)) dt))))"
  shows "distinct (map fst ks)" and "set (map fst ks) = control_samples dt g"
    and "map (\<lambda>k. sample_gene_mean dt (fst k) (snd k)) ks =
         map (\<lambda>s. sample_gene_mean dt s g) (map fst ks)"
proof -
  have d: "distinct ks"
    by (simp add: ks_def)
  have g: "\<forall>k \<in> set ks. snd k = g"
    by (simp add: ks_def)
  then have "inj_on fst (set ks)"
    by (auto simp: inj_on_def prod_eq_iff)
  then show "distinct (map fst ks)"
    using d by (simp add: distinct_map)
  show "set (map fst ks) = control_samples dt g"
    by (force simp: ks_def control_samples_def)
  show "map (\<lambda>k. sample_gene_mean dt (fst k) (snd k)) ks =
         map (\<lambda>s. sample_gene_mean dt s g) (map fst ks)"
    using g by simp
qed

lemma control_baseline_spec:
  "map_of (control_baseline dt) g =
     (if control_samples dt g = {} then None else Some (Some (baseline_spec dt g)))"
proof -
  let ?ks = "filter (\<lambda>k. snd k = g)
          (sort (remdups (map (\<lambda>r. (sample_label (base r), gene (base r)))
             (filter (\<lambda>r. is_control (base r)) dt))))"
  have dom: "g \<in> (\<lambda>item. snd (fst item)) ` set (control_per_sample dt) \<longleftrightarrow> control_samples dt g \<noteq> {}"
    by (force simp: control_per_sample_keyed control_samples_def filter_empty_conv)
  have vals: "List.map_filter snd (filter (\<lambda>item. snd (fst item) = g) (control_per_sample dt)) =
      map (\<lambda>s. sample_gene_mean dt s g) (map fst ?ks)"
    unfolding baseline_group using keys_of_gene(3)[where dt = dt and g = g] by simp
  have sum: "sum_list (map (\<lambda>s. sample_gene_mean dt s g) (map fst ?ks)) =
      (\<Sum>s \<in> control_samples dt g. sample_gene_mean dt s g)"
    using sum_list_distinct_conv_sum_set[OF keys_of_gene(1)[where dt = dt and g = g], of "\<lambda>s. sample_gene_mean dt s g"]
      keys_of_gene(2)[where dt = dt and g = g] by simp
  have len: "length (map fst ?ks) = card (control_samples dt g)"
    using distinct_card[OF keys_of_gene(1)[where dt = dt and g = g]] keys_of_gene(2)[where dt = dt and g = g] by simp
  have ne: "control_samples dt g \<noteq> {} \<Longrightarrow> map fst ?ks \<noteq> []"
    using keys_of_gene(2)[where dt = dt and g = g] by (metis set_empty)
  have "map_of (control_baseline dt) g =
      (if g \<in> (\<lambda>item. snd (fst item)) ` set (control_per_sample dt)
       then Some (mean (List.map_filter snd (filter (\<lambda>item. snd (fst item) = g) (control_per_sample dt))))
       else None)"
    unfolding control_baseline_def by (rule map_of_groupby)
  also have "\<dots> = (if control_samples dt g = {} then None else Some (Some (baseline_spec dt g)))"
  proof (cases "control_samples dt g = {}")
    case True
    then show ?thesis using dom by simp
  next
    case False
    have "mean (map (\<lambda>s. sample_gene_mean dt s g) (map fst ?ks)) =
        Some (sum_list (map (\<lambda>s. sample_gene_mean dt s g) (map fst ?ks)) / real (length (map fst ?ks)))"
      using ne[OF False] by (rule mean_nonempty)
    then show ?thesis
      using False dom unfolding vals sum len by (simp add: baseline_spec_def)
  qed
  finally show ?thesis .
qed

lemma control_mean_of_spec:
  assumes "control_mean_of dt d = Some m"
  shows "control_samples dt (gene (base d)) \<noteq> {} \<and> m = baseline_spec dt (gene (base d))"
  using assms unfolding control_mean_of_def control_baseline_spec
  by (auto split: if_splits)

lemma delta_delta_ct_rows:
  assumes "delta_delta_ct dt = Inr rows" and "r \<in> set rows"
  shows "\<exists>d \<in> set dt. src r = d \<and> control_mean_of dt d = Some (control_mean_dct r) \<and>
           ddct r = dct d - control_mean_dct r \<and> fold_change r = 2 powr (- ddct r)"
proof -
  have "rows = List.map_filter
               (\<lambda>r. map_option
                      (\<lambda>m. \<lparr> src = r, control_mean_dct = m, ddct = dct r - m,
                             fold_change = 2 powr (- (dct r - m)) \<rparr>)
                      (control_mean_of dt r)) dt"
    using assms(1) by (auto simp: delta_delta_ct_def Let_def split: if_splits)
  then show ?thesis
    using assms(2) by (auto simp: in_set_map_filter)
qed

text \<open>
  Claim C2. On every input that passes all validations (under a configuration of the
  kind \<open>cfg_ok\<close>), the baseline the engine looks
  up for a row's gene (\<open>control_baseline\<close>, built by the two \<open>groupby\<close> means of the
  source) is \<open>baseline_spec\<close>: the sum over the gene's control samples of the
  per-sample mean \<open>\<Delta>Ct\<close> of their control rows, divided by the number of those
  samples. Each control sample enters once, whatever its number of wells; the row's
  \<open>\<Delta>\<Delta>Ct\<close> is its \<open>\<Delta>Ct\<close> minus that baseline.
\<close>

theorem baseline_is_mean_of_sample_means:
  assumes "cfg_ok cfg" and "compute_tables lib cfg t = Inr res"
  shows "\<exists>dt rows. dct_table lib cfg t = Inr dt \<and> delta_delta_ct dt = Inr rows \<and>
           well_df res = well_rows rows \<and>
           (\<forall>r \<in> set rows.
              control_samples dt (gene (base (src r))) \<noteq> {} \<and>
              map_of (control_baseline dt) (gene (base (src r))) =
                Some (Some (baseline_spec dt (gene (base (src r))))) \<and>
              control_mean_dct r = baseline_spec dt (gene (base (src r))) \<and>
              ddct r = dct (src r) - baseline_spec dt (gene (base (src r))))"
proof -
  from assms(2) obtain w dt rows where w: "working_table lib cfg t = Inr w"
    and dt: "delta_ct (fst w) = Inr dt" and rows: "delta_delta_ct dt = Inr rows"
    and res: "well_df res = well_rows rows"
    by (auto simp: compute_tables_def split: sum.splits)
  have d: "dct_table lib cfg t = Inr dt"
    using w dt by (simp add: dct_table_def)
  have "control_samples dt (gene (base (src r))) \<noteq> {} \<and>
        map_of (control_baseline dt) (gene (base (src r))) =
                Some (Some (baseline_spec dt (gene (base (src r))))) \<and>
        control_mean_dct r = baseline_spec dt (gene (base (src r))) \<and>
        ddct r = dct (src r) - baseline_spec dt (gene (base (src r)))" if "r \<in> set rows" for r
  proof -
    from delta_delta_ct_rows[OF rows that]
    have m: "control_mean_of dt (src r) = Some (control_mean_dct r)"
      and dd: "ddct r = dct (src r) - control_mean_dct r"
      by auto
    from control_mean_of_spec[OF m] show ?thesis
      using dd by (simp add: control_baseline_spec)
  qed
  then show ?thesis
    using d rows res by blast
qed

lemma uneven_classify:
  "classify sample_lib (default_config ''plate.xlsx'' ''^CTR'' ''ACTB'') (plate uneven_rows) =
     Inr uneven_wrows"
  by (simp add: classify_def missing_cols_def required_cols_def default_config_def plate_def
      plate_row_def uneven_rows_def numeric_rows_def List.map_filter_simps
      row_of_def to_numeric_def mk_wrow_def normalise_def stringify_def astype_str_def
      split_group_sample_def upt_rec Let_def sample_lib_def uneven_wrows_def ctr_wrow_def)

lemma uneven_flags: "flag_outliers [22, 22, 22] ''mad'' 3 = [False, False, False]"
  using flag_outliers_replicate[of 3 22 "''mad''" 3]
  by (simp add: numeral_3_eq_3 no_flags_def)

lemma uneven_mask:
  "outlier_mask (default_config ''plate.xlsx'' ''^CTR'' ''ACTB'') uneven_wrows =
     [(0, False), (1, False), (2, False), (3, False), (4, False), (5, False)]"
  by (simp add: outlier_mask_def groupby_def group_flag_def uneven_wrows_def ctr_wrow_def
      default_config_def str_lower_def lower_char_def uneven_flags)

lemma uneven_series: "\<not> apply_gives_frame uneven_wrows"
  by (simp add: apply_gives_frame_def groupby_def uneven_wrows_def ctr_wrow_def)

lemma uneven_filter:
  "filter_outliers (default_config ''plate.xlsx'' ''^CTR'' ''ACTB'') uneven_wrows =
     Inr (uneven_wrows, Some [])"
  unfolding filter_outliers_def is_outlier_def uneven_mask
  by (simp add: uneven_series) (simp add: uneven_wrows_def ctr_wrow_def default_config_def)

lemma uneven_dct: "delta_ct uneven_wrows = Inr uneven_dct_rows"
  by (simp add: delta_ct_def ref_mean_of_def ref_per_sample_def groupby_def mean_def Let_def
      uneven_wrows_def ctr_wrow_def uneven_dct_rows_def List.map_filter_simps)

lemma uneven_baseline:
  "control_baseline uneven_dct_rows = [(''ACTB'', Some 0), (''GeneX'', Some 3)]"
  by (simp add: control_baseline_def control_per_sample_def groupby_def mean_def
      uneven_dct_rows_def uneven_wrows_def ctr_wrow_def List.map_filter_simps)

lemma uneven_ddct: "delta_delta_ct uneven_dct_rows = Inr uneven_ddct_rows"
  unfolding delta_delta_ct_def control_mean_of_def uneven_baseline
  by (simp add: Let_def uneven_ddct_rows_def uneven_dct_rows_def uneven_wrows_def ctr_wrow_def
      List.map_filter_simps powr_minus)

lemma uneven_spec:
  "baseline_spec uneven_dct_rows ''GeneX'' = 3 \<and> pooled_mean uneven_dct_rows ''GeneX'' = 3.5"
  by (simp add: baseline_spec_def control_samples_def sample_gene_mean_def control_rows_of_def
      pooled_mean_def uneven_dct_rows_def uneven_wrows_def ctr_wrow_def)

theorem baseline_is_mean_of_sample_means_witness:
  "\<exists>res dt rows.
     compute_tables sample_lib (default_config ''plate.xlsx'' ''^CTR'' ''ACTB'') (plate uneven_rows) =
       Inr res \<and>
     dct_table sample_lib (default_config ''plate.xlsx'' ''^CTR'' ''ACTB'') (plate uneven_rows) =
       Inr dt \<and>
     delta_delta_ct dt = Inr rows \<and>
     map dct dt = [0, 2, 0, 4, 4, 4] \<and>
     baseline_spec dt ''GeneX'' = 3 \<and>
     pooled_mean dt ''GeneX'' = 3.5 \<and>
     map control_mean_dct rows = [0, 3, 0, 3, 3, 3] \<and>
     map ddct rows = [0, - 1, 0, 1, 1, 1]"
proof -
  let ?cfg = "default_config ''plate.xlsx'' ''^CTR'' ''ACTB''"
  have w: "working_table sample_lib ?cfg (plate uneven_rows) = Inr (uneven_wrows, Some [])"
    by (simp add: working_table_def uneven_classify uneven_filter)
  have "uneven_ddct_rows \<noteq> []"
    by (simp add: uneven_ddct_rows_def uneven_dct_rows_def uneven_wrows_def)
  then obtain sdf where "sample_rows ?cfg uneven_ddct_rows = Inr sdf"
    by (simp add: sample_rows_def default_config_def)
  then have run: "compute_tables sample_lib ?cfg (plate uneven_rows) =
      Inr \<lparr> well_df = well_rows uneven_ddct_rows, sample_df = sdf, outliers_df = Some [] \<rparr>"
    by (simp add: compute_tables_def w uneven_dct uneven_ddct)
  from baseline_is_mean_of_sample_means[OF cfg_ok_default run] obtain dt rows where
    dt: "dct_table sample_lib ?cfg (plate uneven_rows) = Inr dt"
    and rows: "delta_delta_ct dt = Inr rows"
    by blast
  have dt': "dt = uneven_dct_rows"
    using dt by (simp add: dct_table_def w uneven_dct)
  then have rows': "rows = uneven_ddct_rows"
    using rows by (simp add: uneven_ddct)
  have v: "map dct uneven_dct_rows = [0, 2, 0, 4, 4, 4] \<and>
      map control_mean_dct uneven_ddct_rows = [0, 3, 0, 3, 3, 3] \<and>
      map ddct uneven_ddct_rows = [0, - 1, 0, 1, 1, 1]"
    by (simp add: uneven_ddct_rows_def uneven_dct_rows_def uneven_wrows_def)
  have "compute_tables sample_lib ?cfg (plate uneven_rows) =
          Inr \<lparr> well_df = well_rows uneven_ddct_rows, sample_df = sdf, outliers_df = Some [] \<rparr> \<and>
        dct_table sample_lib ?cfg (plate uneven_rows) = Inr uneven_dct_rows \<and>
        delta_delta_ct uneven_dct_rows = Inr uneven_ddct_rows \<and>
        map dct uneven_dct_rows = [0, 2, 0, 4, 4, 4] \<and>
        baseline_spec uneven_dct_rows ''GeneX'' = 3 \<and>
        pooled_mean uneven_dct_rows ''GeneX'' = 3.5 \<and>
        map control_mean_dct uneven_ddct_rows = [0, 3, 0, 3, 3, 3] \<and>
        map ddct uneven_ddct_rows = [0, - 1, 0, 1, 1, 1]"
    using run dt rows v uneven_spec unfolding dt' rows' by simp
  then show ?thesis
    by (intro exI)
qed

end
